theory Spec2Isabelle
  imports Complex_Main
begin

section \<open>Flappy Jungle Shooter: the game logic of game.py\<close>

text \<open>
  A shallow embedding of the gameplay code of \<^verbatim>\<open>game.py\<close>: the \<^verbatim>\<open>Sprite\<close> and
  \<^verbatim>\<open>Particle\<close> classes and the event handlers of \<^verbatim>\<open>GamePanel\<close>
  (\<^verbatim>\<open>on_key_down\<close>, \<^verbatim>\<open>on_key_up\<close>, \<^verbatim>\<open>on_timer\<close>) with everything they call.

  Conventions of the embedding:
  \<^item> Python floats are reals. The result of a float operation is rounded to the nearest
    double (\<open>to_double\<close>) where the rounding can decide the outcome of the program: in
    the edge sums of \<open>intersects\<close>, which are compared with coordinates, and in the
    points of a hit (\<open>credit_hit\<close>), a float truncated to an int. Everywhere else the
    operations are exact. \<^verbatim>\<open>math.sin\<close>, \<^verbatim>\<open>math.cos\<close> and \<^verbatim>\<open>math.pi\<close> are \<open>sin\<close>, \<open>cos\<close>
    and \<open>pi\<close>.
  \<^item> Python ints are \<open>int\<close>; \<^verbatim>\<open>int(x)\<close> on a float truncates towards zero.
  \<^item> Every Python object that lives in a list has an identity: the field \<open>oid\<close> of a
    sprite is that identity, and \<^verbatim>\<open>list.remove\<close> removes the first element with the
    identity of its argument (the classes define no \<^verbatim>\<open>__eq__\<close>).
  \<^item> \<^verbatim>\<open>time.time()\<close> is an argument \<open>now\<close> of each handler that reads the clock.
  \<^item> The random generator is a stream \<open>rnd\<close> of values of \<^verbatim>\<open>random.random()\<close>; the
    state counts the draws consumed so far.
  \<^item> Drawing (\<^verbatim>\<open>draw\<close>, \<^verbatim>\<open>on_paint\<close>), bitmaps, the animation counters, the clouds and
    the fields \<^verbatim>\<open>health\<close>, \<^verbatim>\<open>shield\<close>, \<^verbatim>\<open>shield_timer\<close> are left out: no gameplay code
    reads them.
\<close>

subsection \<open>Constants\<close>

definition WINDOW_W :: int where "WINDOW_W = 480"
definition WINDOW_H :: int where "WINDOW_H = 640"
definition MAX_BULLETS :: nat where "MAX_BULLETS = 4"
definition SHOOT_COOLDOWN :: real where "SHOOT_COOLDOWN = 28 / 100"

text \<open>Python's \<^verbatim>\<open>int(x)\<close> for a float \<open>x\<close>: truncation towards zero.\<close>

definition py_int :: "real \<Rightarrow> int" where
  "py_int r = (if 0 \<le> r then \<lfloor>r\<rfloor> else \<lceil>r\<rceil>)"

text \<open>
  The result of a float operation is the double nearest to the exact result, ties to
  the even mantissa. A double has a mantissa of 53 bits: for \<open>x\<close> with
  \<open>2 ^ e \<le> \<bar>x\<bar> < 2 ^ (e + 1)\<close> the doubles around \<open>x\<close> are the multiples of
  \<open>2 ^ (e - 52)\<close>. Overflow and subnormal numbers are not modelled (the values of
  the game are far from both).
\<close>

definition round_even :: "real \<Rightarrow> int" where
  "round_even x =
     (let f = \<lfloor>x\<rfloor>; r = x - real_of_int f
      in if r < 1 / 2 then f else if 1 / 2 < r then f + 1 else if even f then f else f + 1)"

definition to_double :: "real \<Rightarrow> real" where
  "to_double x =
     (if x = 0 then 0
      else (let k = 52 - \<lfloor>log 2 \<bar>x\<bar>\<rfloor>
            in if 0 \<le> k then real_of_int (round_even (x * 2 ^ nat k)) / 2 ^ nat k
               else real_of_int (round_even (x / 2 ^ nat (- k))) * 2 ^ nat (- k)))"

text \<open>
  The scale of a number \<open>x \<noteq> 0\<close>: the power of two that takes \<open>\<bar>x\<bar>\<close> between \<open>2 ^ 52\<close>
  and \<open>2 ^ 53\<close>, so that \<open>to_double x\<close> is \<open>x\<close> scaled, rounded to an integer and scaled
  back. It is used in the proofs only.
\<close>

definition sc :: "real \<Rightarrow> real" where
  "sc x = 2 powr real_of_int (52 - \<lfloor>log 2 \<bar>x\<bar>\<rfloor>)"

subsection \<open>Sprites\<close>

type_synonym colour = "nat \<times> nat \<times> nat"

datatype bullet_kind = Normal | Venom | Special | SpecialVenom

datatype enemy_kind = SnakeEnemy | Eagle | Crocodile | Owl

datatype character = Bird | Snake

text \<open>
  \<^verbatim>\<open>class Sprite\<close>. The attributes that the game attaches to some sprites only
  (\<^verbatim>\<open>bullet_type\<close>, \<^verbatim>\<open>lifetime\<close>, \<^verbatim>\<open>age\<close>, \<^verbatim>\<open>enemy_type\<close>, \<^verbatim>\<open>character_type\<close>) are
  optional fields: \<open>None\<close> is an absent attribute, which the code reads through
  \<^verbatim>\<open>getattr\<close> with a default.
\<close>

record sprite =
  oid :: nat
  sp_x :: real
  sp_y :: real
  sp_w :: int
  sp_h :: int
  sp_vx :: real
  sp_vy :: real
  color :: colour
  alive :: bool
  base_y :: real
  bob_phase :: real
  bob_amp :: real
  bob_speed :: real
  bullet_type :: "bullet_kind option"
  lifetime :: "real option"
  age :: "real option"
  enemy_type :: "enemy_kind option"
  character_type :: "character option"

text \<open>\<^verbatim>\<open>Sprite.__init__\<close>; the first argument is the identity of the new object.\<close>

definition Sprite :: "nat \<Rightarrow> real \<Rightarrow> real \<Rightarrow> int \<Rightarrow> int \<Rightarrow> real \<Rightarrow> real \<Rightarrow> colour \<Rightarrow> sprite" where
  "Sprite i px py pw ph pvx pvy c =
     \<lparr> oid = i, sp_x = px, sp_y = py, sp_w = pw, sp_h = ph, sp_vx = pvx, sp_vy = pvy,
       color = c, alive = True, base_y = py, bob_phase = 0, bob_amp = 0, bob_speed = 1,
       bullet_type = None, lifetime = None, age = None, enemy_type = None,
       character_type = None \<rparr>"

text \<open>\<^verbatim>\<open>Sprite.update\<close>\<close>

definition update :: "real \<Rightarrow> sprite \<Rightarrow> sprite" where
  "update d sp = sp\<lparr> sp_x := sp_x sp + sp_vx sp * d, sp_y := sp_y sp + sp_vy sp * d \<rparr>"

text \<open>
  \<^verbatim>\<open>Sprite.intersects\<close>. The sums \<^verbatim>\<open>self.x + self.w\<close> and the like are float additions
  (the int size is converted exactly): each is rounded to a double before the
  comparison.
\<close>

definition intersects :: "sprite \<Rightarrow> sprite \<Rightarrow> bool" where
  "intersects self other =
     (\<not> (to_double (sp_x self + real_of_int (sp_w self)) < sp_x other
         \<or> sp_x self > to_double (sp_x other + real_of_int (sp_w other))
         \<or> to_double (sp_y self + real_of_int (sp_h self)) < sp_y other
         \<or> sp_y self > to_double (sp_y other + real_of_int (sp_h other))))"

text \<open>
  The coordinates of a sprite are Python floats: reals that are doubles, which rounding
  leaves as they are.
\<close>

definition is_double :: "real \<Rightarrow> bool" where
  "is_double x \<longleftrightarrow> to_double x = x"

definition float_coords :: "sprite \<Rightarrow> bool" where
  "float_coords sp \<longleftrightarrow> is_double (sp_x sp) \<and> is_double (sp_y sp)"

subsection \<open>The high-score file\<close>

datatype py_error = ValueError | FileNotFoundError | OSError

text \<open>
  What \<^verbatim>\<open>open('highscore.txt', 'r')\<close> followed by \<^verbatim>\<open>f.read()\<close> can do: the file does not
  exist (\<^verbatim>\<open>FileNotFoundError\<close>), it cannot be opened or read for another reason (another
  \<^verbatim>\<open>OSError\<close>, such as \<^verbatim>\<open>PermissionError\<close>), its bytes do not decode
  (\<^verbatim>\<open>UnicodeDecodeError\<close>, a subclass of \<^verbatim>\<open>ValueError\<close>), or the text is returned.
  The text is modelled over the ASCII repertoire.
\<close>

datatype file_read = NoSuchFile | ReadFailure | DecodeFailure | Text string

definition open_read :: "file_read \<Rightarrow> py_error + string" where
  "open_read f =
     (case f of
        NoSuchFile \<Rightarrow> Inl FileNotFoundError
      | ReadFailure \<Rightarrow> Inl OSError
      | DecodeFailure \<Rightarrow> Inl ValueError
      | Text t \<Rightarrow> Inr t)"

text \<open>
  \<^verbatim>\<open>str.isspace\<close> on an ASCII character: TAB to CR, the separators FS to US, and the
  space.
\<close>

definition is_space :: "char \<Rightarrow> bool" where
  "is_space c = (let n = (of_char c :: nat) in (9 \<le> n \<and> n \<le> 13) \<or> (28 \<le> n \<and> n \<le> 31) \<or> n = 32)"

text \<open>\<^verbatim>\<open>str.strip()\<close>\<close>

definition strip :: "string \<Rightarrow> string" where
  "strip t = rev (dropWhile is_space (rev (dropWhile is_space t)))"

definition is_digit :: "char \<Rightarrow> bool" where
  "is_digit c = (let n = (of_char c :: nat) in 48 \<le> n \<and> n \<le> 57)"

definition digit_val :: "char \<Rightarrow> int" where
  "digit_val c = int (of_char c) - 48"

text \<open>
  The digits of a decimal literal as \<^verbatim>\<open>int\<close> accepts them: at least one digit, and single
  underscores between digits only.
\<close>

fun digits_ok :: "string \<Rightarrow> bool" where
  "digits_ok [] = False"
| "digits_ok [c] = is_digit c"
| "digits_ok (c # d # cs) =
     (is_digit c \<and> (if d = CHR ''_'' then digits_ok cs else digits_ok (d # cs)))"

definition digits_value :: "string \<Rightarrow> int" where
  "digits_value t = foldl (\<lambda>a c. 10 * a + digit_val c) 0 (filter is_digit t)"

text \<open>
  \<^verbatim>\<open>int(t)\<close> for a string \<open>t\<close>, base 10: surrounding whitespace is skipped, then an
  optional sign, then the digits. Anything else is a \<^verbatim>\<open>ValueError\<close>. The argument
  \<open>max_digits\<close> is \<^verbatim>\<open>sys.get_int_max_str_digits()\<close>: when it is not 0, a literal of more
  digits is a \<^verbatim>\<open>ValueError\<close> as well (interpreters without the limit have 0).
\<close>

definition unsigned_of_str :: "nat \<Rightarrow> string \<Rightarrow> py_error + int" where
  "unsigned_of_str max_digits t =
     (if \<not> digits_ok t then Inl ValueError
      else if max_digits \<noteq> 0 \<and> max_digits < length (filter is_digit t) then Inl ValueError
      else Inr (digits_value t))"

definition int_of_str :: "nat \<Rightarrow> string \<Rightarrow> py_error + int" where
  "int_of_str max_digits t =
     (case strip t of
        [] \<Rightarrow> Inl ValueError
      | c # cs \<Rightarrow>
          if c = CHR ''-'' then map_sum id uminus (unsigned_of_str max_digits cs)
          else if c = CHR ''+'' then unsigned_of_str max_digits cs
          else unsigned_of_str max_digits (c # cs))"

text \<open>
  \<^verbatim>\<open>GamePanel.load_high_score\<close>: \<^verbatim>\<open>FileNotFoundError\<close> and \<^verbatim>\<open>ValueError\<close> are caught and
  give 0; any other exception propagates.
\<close>

definition load_high_score :: "nat \<Rightarrow> file_read \<Rightarrow> py_error + int" where
  "load_high_score max_digits f =
     (case (case open_read f of Inl e \<Rightarrow> Inl e | Inr t \<Rightarrow> int_of_str max_digits (strip t)) of
        Inl FileNotFoundError \<Rightarrow> Inr 0
      | Inl ValueError \<Rightarrow> Inr 0
      | Inl OSError \<Rightarrow> Inl OSError
      | Inr n \<Rightarrow> Inr n)"

text \<open>\<^verbatim>\<open>str(n)\<close> for an int: the decimal digits, with a minus sign when negative.\<close>

fun str_nat :: "nat \<Rightarrow> string" where
  "str_nat n = (if n < 10 then [char_of (48 + n)] else str_nat (n div 10) @ [char_of (48 + n mod 10)])"

declare str_nat.simps [simp del]

definition py_str :: "int \<Rightarrow> string" where
  "py_str n = (if n < 0 then CHR ''-'' # str_nat (nat (- n)) else str_nat (nat n))"

subsection \<open>Particles, raindrops, difficulty presets\<close>

text \<open>\<^verbatim>\<open>class Particle\<close>\<close>

record particle =
  p_x :: real
  p_y :: real
  p_vx :: real
  p_vy :: real
  p_color :: colour
  p_lifetime :: real
  p_age :: real
  p_size :: int

definition Particle :: "real \<Rightarrow> real \<Rightarrow> real \<Rightarrow> real \<Rightarrow> colour \<Rightarrow> real \<Rightarrow> particle" where
  "Particle px py pvx pvy c l =
     \<lparr> p_x = px, p_y = py, p_vx = pvx, p_vy = pvy, p_color = c, p_lifetime = l, p_age = 0,
       p_size = 4 \<rparr>"

text \<open>\<^verbatim>\<open>Particle.update\<close>: the moved particle, and whether it is still alive.\<close>

definition Particle_update :: "real \<Rightarrow> particle \<Rightarrow> particle \<times> bool" where
  "Particle_update d p =
     (let p' = p\<lparr> p_x := p_x p + p_vx p * d, p_y := p_y p + p_vy p * d, p_age := p_age p + d \<rparr>
      in (p', p_age p' < p_lifetime p'))"

text \<open>A raindrop is a dict with the keys \<^verbatim>\<open>'x'\<close>, \<^verbatim>\<open>'y'\<close> and \<^verbatim>\<open>'v'\<close>.\<close>

record raindrop =
  rd_x :: real
  rd_y :: real
  rd_v :: real

text \<open>An entry of \<^verbatim>\<open>difficulty_presets\<close>.\<close>

record preset =
  pr_name :: string
  pr_mult :: real
  pr_spawn_rate :: real
  pr_enemy_speed :: real
  pr_gravity :: real

definition difficulty_presets :: "preset list" where
  "difficulty_presets =
     [ \<lparr> pr_name = ''Easy'', pr_mult = 8 / 10, pr_spawn_rate = 8 / 10, pr_enemy_speed = 85 / 100, pr_gravity = 9 / 10 \<rparr>,
       \<lparr> pr_name = ''Normal'', pr_mult = 1, pr_spawn_rate = 1, pr_enemy_speed = 1, pr_gravity = 1 \<rparr>,
       \<lparr> pr_name = ''Hard'', pr_mult = 12 / 10, pr_spawn_rate = 12 / 10, pr_enemy_speed = 115 / 100, pr_gravity = 105 / 100 \<rparr>,
       \<lparr> pr_name = ''Insane'', pr_mult = 15 / 10, pr_spawn_rate = 15 / 10, pr_enemy_speed = 14 / 10, pr_gravity = 11 / 10 \<rparr> ]"

datatype theme_name = Sunny | Rainy

definition theme_sequence :: "(theme_name \<times> int) list" where
  "theme_sequence = [(Rainy, 500), (Sunny, 1500)]"

subsection \<open>The state of the game panel\<close>

text \<open>
  The attributes of \<^verbatim>\<open>GamePanel\<close>. \<open>player\<close> says which of the two sprites
  \<^verbatim>\<open>self.player\<close> refers to. Four fields belong to the embedding: \<open>next_oid\<close> (the
  identity of the next object created), \<open>draws\<close> (the number of random draws consumed),
  \<open>highscore_file\<close> (the text this session last wrote to \<^verbatim>\<open>highscore.txt\<close>, if any) and
  \<open>exited\<close> (\<^verbatim>\<open>wx.GetApp().Exit()\<close> was called).
\<close>

record game =
  last_time :: real
  dt :: real
  current_character :: character
  bird :: sprite
  snake :: sprite
  player :: character
  gravity :: real
  flap_strength :: real
  bullets :: "sprite list"
  enemies :: "sprite list"
  particles :: "particle list"
  spawn_timer :: real
  score :: int
  combo :: int
  combo_timer :: real
  keys :: "int set"
  running :: bool
  paused :: bool
  last_shot :: real
  last_special :: real
  special_cooldown :: real
  difficulty_index :: nat
  difficulty :: real
  high_score :: int
  camera_shake :: real
  theme_stage :: nat
  theme :: theme_name
  theme_spawn_boost :: real
  theme_enemy_speed_boost :: real
  raindrops :: "raindrop list"
  next_oid :: nat
  draws :: nat
  highscore_file :: "string option"
  exited :: bool

definition get_player :: "game \<Rightarrow> sprite" where
  "get_player s = (case player s of Bird \<Rightarrow> bird s | Snake \<Rightarrow> snake s)"

definition set_player :: "sprite \<Rightarrow> game \<Rightarrow> game" where
  "set_player sp s = (case player s of Bird \<Rightarrow> s\<lparr> bird := sp \<rparr> | Snake \<Rightarrow> s\<lparr> snake := sp \<rparr>)"

text \<open>
  \<^verbatim>\<open>GamePanel.__init__\<close>, given the clock and the high score that \<^verbatim>\<open>load_high_score\<close>
  returned. The bird is object 0 and the snake object 1.
\<close>

definition new_game :: "real \<Rightarrow> int \<Rightarrow> game" where
  "new_game now hs =
     \<lparr> last_time = now, dt = 0, current_character = Bird,
       bird = Sprite 0 60 (real_of_int (WINDOW_H div 2)) 34 24 0 0 (255, 200, 0),
       snake = (Sprite 1 60 (real_of_int (WINDOW_H div 2)) 40 20 0 0 (50, 180, 80))
                 \<lparr> character_type := Some Snake \<rparr>,
       player = Bird, gravity = 900, flap_strength = - 320,
       bullets = [], enemies = [], particles = [], spawn_timer = 0,
       score = 0, combo = 0, combo_timer = 0, keys = {}, running = True, paused = False,
       last_shot = - 10, last_special = - 10, special_cooldown = 3,
       difficulty_index = 1, difficulty = pr_mult (difficulty_presets ! 1),
       high_score = hs, camera_shake = 0,
       theme_stage = 0, theme = Sunny, theme_spawn_boost = 1, theme_enemy_speed_boost = 1,
       raindrops = [], next_oid = 2, draws = 0, highscore_file = None, exited = False \<rparr>"

definition GamePanel_init :: "nat \<Rightarrow> file_read \<Rightarrow> real \<Rightarrow> py_error + game" where
  "GamePanel_init max_digits f now =
     (case load_high_score max_digits f of Inl e \<Rightarrow> Inl e | Inr hs \<Rightarrow> Inr (new_game now hs))"

subsection \<open>Lists of objects\<close>

text \<open>
  \<^verbatim>\<open>xs.remove(obj)\<close> inside \<^verbatim>\<open>try: ... except ValueError: pass\<close>: the first element with
  the identity of \<open>obj\<close> is removed; when there is none the list is unchanged.
\<close>

fun list_remove :: "sprite \<Rightarrow> sprite list \<Rightarrow> sprite list" where
  "list_remove obj [] = []"
| "list_remove obj (z # zs) = (if oid z = oid obj then zs else z # list_remove obj zs)"

text \<open>
  A loop over \<^verbatim>\<open>list(xs)\<close> mutates objects that the live list \<open>xs\<close> holds too. The
  embedding writes the mutated object back into the live list.
\<close>

definition store_obj :: "sprite \<Rightarrow> sprite list \<Rightarrow> sprite list" where
  "store_obj obj zs = map (\<lambda>z. if oid z = oid obj then obj else z) zs"

subsection \<open>Weapons\<close>

definition trigger_shake :: "real \<Rightarrow> game \<Rightarrow> game" where
  "trigger_shake intensity s = s\<lparr> camera_shake := intensity \<rparr>"

text \<open>Appending a newly created sprite to \<^verbatim>\<open>self.bullets\<close>.\<close>

definition add_bullet :: "sprite \<Rightarrow> game \<Rightarrow> game" where
  "add_bullet b s = s\<lparr> bullets := bullets s @ [b], next_oid := Suc (next_oid s) \<rparr>"

definition shoot_bird :: "game \<Rightarrow> game" where
  "shoot_bird s =
     (let bx = sp_x (bird s) + real_of_int (sp_w (bird s));
          by = sp_y (bird s) + real_of_int (sp_h (bird s) div 2) - 4;
          bullet = (Sprite (next_oid s) bx by 8 8 420 0 (255, 50, 50))
                     \<lparr> bullet_type := Some Normal \<rparr>
      in add_bullet bullet s)"

definition snake_pellet :: "real \<Rightarrow> real \<Rightarrow> game \<Rightarrow> real \<Rightarrow> game" where
  "snake_pellet bx by s angle =
     (let speed = 380;
          vx = speed * cos angle;
          vy = speed * sin angle;
          pellet = (Sprite (next_oid s) bx by 6 6 vx vy (100, 220, 80))
                     \<lparr> bullet_type := Some Venom, lifetime := Some 3, age := Some 0 \<rparr>
      in add_bullet pellet s)"

definition shoot_snake :: "game \<Rightarrow> game" where
  "shoot_snake s =
     (let bx = sp_x (snake s) + real_of_int (sp_w (snake s));
          by = sp_y (snake s) + real_of_int (sp_h (snake s) div 2);
          angles = [0, - (3 / 10), 3 / 10]
      in foldl (snake_pellet bx by) s angles)"

definition shoot :: "game \<Rightarrow> game" where
  "shoot s = (if current_character s = Bird then shoot_bird s else shoot_snake s)"

definition try_shoot :: "real \<Rightarrow> game \<Rightarrow> game" where
  "try_shoot now s =
     (if now - last_shot s < SHOOT_COOLDOWN then s
      else if length (bullets s) \<ge> MAX_BULLETS then s
      else (shoot s)\<lparr> last_shot := now \<rparr>)"

definition special_bird_bullet :: "real \<Rightarrow> real \<Rightarrow> game \<Rightarrow> real \<Rightarrow> game" where
  "special_bird_bullet bx by s angle =
     (let speed = 450;
          vx = speed * cos angle;
          vy = speed * sin angle;
          bullet = (Sprite (next_oid s) bx by 8 8 vx vy (255, 100, 50))
                     \<lparr> bullet_type := Some Special \<rparr>
      in add_bullet bullet s)"

definition special_bird_attack :: "game \<Rightarrow> game" where
  "special_bird_attack s =
     (let bx = sp_x (bird s) + real_of_int (sp_w (bird s));
          by = sp_y (bird s) + real_of_int (sp_h (bird s) div 2);
          angles = [- (4 / 10), - (2 / 10), 0, 2 / 10, 4 / 10]
      in foldl (special_bird_bullet bx by) s angles)"

definition special_snake_pellet :: "real \<Rightarrow> real \<Rightarrow> nat \<Rightarrow> game \<Rightarrow> nat \<Rightarrow> game" where
  "special_snake_pellet cx cy num_pellets s i =
     (let angle = (2 * pi * real i) / real num_pellets;
          speed = 250;
          vx = speed * cos angle;
          vy = speed * sin angle;
          pellet = (Sprite (next_oid s) cx cy 7 7 vx vy (150, 255, 100))
                     \<lparr> bullet_type := Some SpecialVenom, lifetime := Some 2, age := Some 0 \<rparr>
      in add_bullet pellet s)"

definition special_snake_attack :: "game \<Rightarrow> game" where
  "special_snake_attack s =
     (let cx = sp_x (snake s) + real_of_int (sp_w (snake s) div 2);
          cy = sp_y (snake s) + real_of_int (sp_h (snake s) div 2);
          num_pellets = 8
      in foldl (special_snake_pellet cx cy num_pellets) s [0 ..< num_pellets])"

definition special_attack :: "game \<Rightarrow> game" where
  "special_attack s =
     trigger_shake 6
       (if current_character s = Bird then special_bird_attack s else special_snake_attack s)"

definition try_special_attack :: "real \<Rightarrow> game \<Rightarrow> game" where
  "try_special_attack now s =
     (if now - last_special s < special_cooldown s then s
      else (special_attack s)\<lparr> last_special := now \<rparr>)"

text \<open>
  The projectiles of primary fire are the bird's bullets and the snake's venom pellets;
  those of the special attacks are the other two kinds.
\<close>

definition is_primary :: "sprite \<Rightarrow> bool" where
  "is_primary b = (bullet_type b = Some Normal \<or> bullet_type b = Some Venom)"

subsection \<open>Restart, character switch, keys\<close>

definition save_high_score :: "game \<Rightarrow> game" where
  "save_high_score s = s\<lparr> highscore_file := Some (py_str (high_score s)) \<rparr>"

definition reset :: "game \<Rightarrow> game" where
  "reset s0 =
     (let s1 = s0\<lparr> bullets := [], enemies := [], particles := [] \<rparr>;
          s2 = (if score s1 > high_score s1
                then save_high_score (s1\<lparr> high_score := score s1 \<rparr>) else s1)
      in s2\<lparr> score := 0, combo := 0, combo_timer := 0,
              bird := (bird s2)\<lparr> sp_x := 60, sp_y := real_of_int (WINDOW_H div 2), sp_vx := 0, sp_vy := 0 \<rparr>,
              snake := (snake s2)\<lparr> sp_x := 60, sp_y := real_of_int (WINDOW_H div 2), sp_vx := 0, sp_vy := 0 \<rparr>,
              running := True, paused := False, camera_shake := 0, difficulty := 1 \<rparr>)"

definition toggle_character :: "game \<Rightarrow> game" where
  "toggle_character s0 =
     (let s1 = (if current_character s0 = Bird
                then s0\<lparr> current_character := Snake, player := Snake \<rparr>
                else s0\<lparr> current_character := Bird, player := Bird \<rparr>)
      in set_player ((get_player s1)\<lparr> sp_x := 60, sp_y := real_of_int (WINDOW_H div 2), sp_vy := 0 \<rparr>) s1)"

text \<open>Key codes: \<^verbatim>\<open>ord\<close> of a character, and the three wx constants the handler uses.\<close>

definition py_ord :: "char \<Rightarrow> int" where
  "py_ord c = int (of_char c)"

definition WXK_SPACE :: int where "WXK_SPACE = 32"
definition WXK_ESCAPE :: int where "WXK_ESCAPE = 27"
definition WXK_CONTROL :: int where "WXK_CONTROL = 308"

text \<open>\<^verbatim>\<open>GamePanel.on_key_down\<close>, for the key code of the event; \<open>now\<close> is the clock.\<close>

definition on_key_down :: "real \<Rightarrow> int \<Rightarrow> game \<Rightarrow> game" where
  "on_key_down now key s0 =
     (let s = s0\<lparr> keys := insert key (keys s0) \<rparr> in
      if key = WXK_SPACE then
        set_player ((get_player s)\<lparr> sp_vy := flap_strength s \<rparr>) s
      else if key = py_ord CHR ''P'' \<or> key = py_ord CHR ''p'' then
        s\<lparr> paused := \<not> paused s \<rparr>
      else if key = py_ord CHR ''R'' \<or> key = py_ord CHR ''r'' then
        reset s
      else if key = WXK_CONTROL \<or> key = py_ord CHR ''Z'' then
        try_shoot now s
      else if key = py_ord CHR ''C'' \<or> key = py_ord CHR ''c'' then
        toggle_character s
      else if key = py_ord CHR ''X'' \<or> key = py_ord CHR ''x'' then
        try_special_attack now s
      else if key = py_ord CHR ''D'' \<or> key = py_ord CHR ''d'' then
        (let i = (difficulty_index s + 1) mod length difficulty_presets
         in s\<lparr> difficulty_index := i, difficulty := pr_mult (difficulty_presets ! i) \<rparr>)
      else if key = WXK_ESCAPE then
        s\<lparr> exited := True \<rparr>
      else s)"


subsection \<open>Random draws\<close>

text \<open>
  \<open>rnd k\<close> is the value of the \<open>k\<close>-th call of \<^verbatim>\<open>random.random()\<close>.
  \<^verbatim>\<open>random.uniform(a, b)\<close> is \<^verbatim>\<open>a + (b - a) * random()\<close>; \<^verbatim>\<open>random.randint(a, b)\<close> is
  modelled as a draw scaled to the \<open>b - a + 1\<close> integers from \<open>a\<close>.
\<close>

definition uniform :: "real \<Rightarrow> real \<Rightarrow> real \<Rightarrow> real" where
  "uniform u a b = a + (b - a) * u"

definition randint :: "real \<Rightarrow> int \<Rightarrow> int \<Rightarrow> int" where
  "randint u a b = a + \<lfloor>u * real_of_int (b - a + 1)\<rfloor>"

subsection \<open>Spawning\<close>

text \<open>
  The common end of the four branches of \<^verbatim>\<open>spawn_enemy\<close>: the sprite is created with the
  bobbing parameters and the type tag and appended to \<^verbatim>\<open>self.enemies\<close>; \<open>n\<close> draws were used.
\<close>

definition add_enemy :: "nat \<Rightarrow> sprite \<Rightarrow> real \<Rightarrow> real \<Rightarrow> enemy_kind \<Rightarrow> game \<Rightarrow> game" where
  "add_enemy n e amp spd kind s =
     s\<lparr> enemies := enemies s @ [e\<lparr> bob_amp := amp, bob_speed := spd, enemy_type := Some kind \<rparr>],
        next_oid := Suc (next_oid s), draws := draws s + n \<rparr>"

definition spawn_enemy :: "(nat \<Rightarrow> real) \<Rightarrow> game \<Rightarrow> game" where
  "spawn_enemy rnd s =
     (let k = draws s;
          t = rnd k;
          preset_speed = pr_enemy_speed (difficulty_presets ! difficulty_index s);
          speed_factor = (1 + (difficulty s - 1) * (3 / 10)) * preset_speed * theme_enemy_speed_boost s
      in
      if t < 25 / 100 then
        (let h = randint (rnd (k + 1)) 20 36;
             y = WINDOW_H - 60 - h;
             enemy = Sprite (next_oid s) (real_of_int WINDOW_W) (real_of_int y) 48 h
                       (- (150 + rnd (k + 2) * 40) * speed_factor) 0 (10, 150, 20)
         in add_enemy 5 enemy (uniform (rnd (k + 3)) 2 6) (uniform (rnd (k + 4)) 1 2) SnakeEnemy s)
      else if t < 50 / 100 then
        (let h = randint (rnd (k + 1)) 28 44;
             y = randint (rnd (k + 2)) 20 (WINDOW_H - 160);
             enemy = Sprite (next_oid s) (real_of_int WINDOW_W) (real_of_int y) 52 h
                       (- (200 + rnd (k + 3) * 80) * speed_factor) 0 (120, 80, 40)
         in add_enemy 6 enemy (uniform (rnd (k + 4)) 6 14) (uniform (rnd (k + 5)) (8 / 10) (16 / 10)) Eagle s)
      else if t < 75 / 100 then
        (let h = randint (rnd (k + 1)) 22 32;
             y = WINDOW_H - 60 - h;
             enemy = Sprite (next_oid s) (real_of_int WINDOW_W) (real_of_int y) 56 h
                       (- (100 + rnd (k + 2) * 30) * speed_factor) 0 (40, 120, 50)
         in add_enemy 5 enemy (uniform (rnd (k + 3)) 1 3) (uniform (rnd (k + 4)) (6 / 10) (12 / 10)) Crocodile s)
      else
        (let h = randint (rnd (k + 1)) 30 42;
             y = randint (rnd (k + 2)) 40 (WINDOW_H - 140);
             enemy = Sprite (next_oid s) (real_of_int WINDOW_W) (real_of_int y) 44 h
                       (- (120 + rnd (k + 3) * 50) * speed_factor) 0 (80, 60, 40)
         in add_enemy 6 enemy (uniform (rnd (k + 4)) 8 16) (uniform (rnd (k + 5)) (15 / 10) (25 / 10)) Owl s))"

text \<open>\<^verbatim>\<open>spawn_particles\<close>: \<open>count\<close> particles, three draws each.\<close>

fun spawn_particles :: "(nat \<Rightarrow> real) \<Rightarrow> real \<Rightarrow> real \<Rightarrow> colour \<Rightarrow> nat \<Rightarrow> game \<Rightarrow> game" where
  "spawn_particles rnd px py c 0 s = s"
| "spawn_particles rnd px py c (Suc count) s =
     (let k = draws s;
          angle = uniform (rnd k) 0 (2 * pi);
          speed = uniform (rnd (k + 1)) 80 200;
          vx = speed * cos angle;
          vy = speed * sin angle;
          p_color = (if rnd (k + 2) < 3 / 10 then (255, 255, 200) else c);
          p = Particle px py vx vy p_color (1 / 2)
      in spawn_particles rnd px py c count
           (s\<lparr> particles := particles s @ [p], draws := k + 3 \<rparr>))"

subsection \<open>The frame update\<close>

text \<open>Gravity, the vertical move of the active player and the clamps to sky and ground.\<close>

definition physics :: "real \<Rightarrow> game \<Rightarrow> game" where
  "physics d s =
     (let gravity_scale = pr_gravity (difficulty_presets ! difficulty_index s);
          p0 = get_player s;
          p1 = p0\<lparr> sp_vy := sp_vy p0 + gravity s * gravity_scale * d \<rparr>;
          p2 = p1\<lparr> sp_y := sp_y p1 + sp_vy p1 * d \<rparr>;
          p3 = (if sp_y p2 < 0 then p2\<lparr> sp_y := 0, sp_vy := 0 \<rparr> else p2);
          p4 = (if sp_y p3 + real_of_int (sp_h p3) > real_of_int (WINDOW_H - 60)
                then p3\<lparr> sp_y := real_of_int (WINDOW_H - 60 - sp_h p3), sp_vy := 0 \<rparr> else p3)
      in set_player p4 s)"

text \<open>
  The body of the loop over \<^verbatim>\<open>list(self.bullets)\<close>: the bullet moves; a venom pellet ages
  and is removed at the end of its lifetime; a bullet beyond the right edge is removed.
\<close>

definition step_bullet :: "real \<Rightarrow> sprite \<Rightarrow> game \<Rightarrow> game" where
  "step_bullet d b0 s =
     (let b1 = update d b0 in
      if bullet_type b1 = Some Venom \<or> bullet_type b1 = Some SpecialVenom then
        (let b2 = b1\<lparr> age := Some ((case age b1 of None \<Rightarrow> 0 | Some a \<Rightarrow> a) + d) \<rparr>;
             s2 = s\<lparr> bullets := store_obj b2 (bullets s) \<rparr>
         in if (case age b2 of None \<Rightarrow> 0 | Some a \<Rightarrow> a) \<ge> (case lifetime b2 of None \<Rightarrow> 3 | Some l \<Rightarrow> l)
            then s2\<lparr> bullets := list_remove b2 (bullets s2) \<rparr>
            else if sp_x b2 > real_of_int WINDOW_W
            then s2\<lparr> bullets := list_remove b2 (bullets s2) \<rparr>
            else s2)
      else
        (let s1 = s\<lparr> bullets := store_obj b1 (bullets s) \<rparr>
         in if sp_x b1 > real_of_int WINDOW_W
            then s1\<lparr> bullets := list_remove b1 (bullets s1) \<rparr>
            else s1))"

definition update_bullets :: "real \<Rightarrow> game \<Rightarrow> game" where
  "update_bullets d s = foldl (\<lambda>s' b. step_bullet d b s') s (bullets s)"

text \<open>The spawn timer: one enemy when the timer passes the spawn interval.\<close>

definition spawn_phase :: "(nat \<Rightarrow> real) \<Rightarrow> real \<Rightarrow> game \<Rightarrow> game" where
  "spawn_phase rnd d s0 =
     (let s = s0\<lparr> spawn_timer := spawn_timer s0 + d \<rparr>;
          base_spawn = max (6 / 10) (12 / 10 - real_of_int (score s) / 1000);
          spawn_rate_mul = pr_spawn_rate (difficulty_presets ! difficulty_index s) * theme_spawn_boost s;
          spawn_interval = max (18 / 100) (base_spawn / spawn_rate_mul)
      in if spawn_timer s > spawn_interval
         then spawn_enemy rnd (s\<lparr> spawn_timer := 0 \<rparr>)
         else s)"

definition update_difficulty :: "game \<Rightarrow> game" where
  "update_difficulty s = s\<lparr> difficulty := 1 + real_of_int (score s) / 5000 \<rparr>"

text \<open>The 120 raindrops of the rainy theme, three draws each.\<close>

fun add_raindrops :: "(nat \<Rightarrow> real) \<Rightarrow> nat \<Rightarrow> game \<Rightarrow> game" where
  "add_raindrops rnd 0 s = s"
| "add_raindrops rnd (Suc n) s =
     (let k = draws s;
          rx = randint (rnd k) 0 WINDOW_W;
          ry = randint (rnd (k + 1)) (- WINDOW_H) 0;
          rv = uniform (rnd (k + 2)) 200 400
      in add_raindrops rnd n
           (s\<lparr> raindrops := raindrops s @ [\<lparr> rd_x = real_of_int rx, rd_y = real_of_int ry, rd_v = rv \<rparr>],
               draws := k + 3 \<rparr>))"

text \<open>The theme transition at the score threshold of the current stage.\<close>

definition theme_transition :: "(nat \<Rightarrow> real) \<Rightarrow> game \<Rightarrow> game" where
  "theme_transition rnd s =
     (if theme_stage s < length theme_sequence then
        (let (next_theme, threshold) = theme_sequence ! theme_stage s in
         if score s \<ge> threshold then
           (let s1 = s\<lparr> theme := next_theme \<rparr>;
                s2 = (if theme s1 = Rainy then
                        add_raindrops rnd 120
                          (s1\<lparr> theme_spawn_boost := 125 / 100, theme_enemy_speed_boost := 115 / 100 \<rparr>)
                      else
                        s1\<lparr> theme_spawn_boost := 1, theme_enemy_speed_boost := 1, raindrops := [] \<rparr>)
            in s2\<lparr> theme_stage := theme_stage s2 + 1 \<rparr>)
         else s)
      else s)"

text \<open>
  What a bullet hit credits: the combo counter goes up, the combo timer restarts, and the
  score grows by \<^verbatim>\<open>int(base_score * multiplier)\<close>. The literal \<^verbatim>\<open>0.2\<close> is the double
  nearest to 1/5, and the product, the sum and the second product are float operations.
\<close>

definition credit_hit :: "game \<Rightarrow> game" where
  "credit_hit s0 =
     (let s = s0\<lparr> combo := combo s0 + 1, combo_timer := 3 \<rparr>;
          base_score = 100;
          multiplier = to_double (1 + to_double (real_of_int (combo s - 1) * to_double (2 / 10)))
      in s\<lparr> score := score s + py_int (to_double (real_of_int base_score * multiplier)) \<rparr>)"

text \<open>The body of \<^verbatim>\<open>if e.intersects(b):\<close> in the loop over the bullets.\<close>

definition hit :: "(nat \<Rightarrow> real) \<Rightarrow> sprite \<Rightarrow> sprite \<Rightarrow> game \<Rightarrow> game" where
  "hit rnd e b s0 =
     (let s1 = s0\<lparr> enemies := list_remove e (enemies s0) \<rparr>;
          s2 = s1\<lparr> bullets := list_remove b (bullets s1) \<rparr>;
          s3 = credit_hit s2;
          ex = sp_x e + real_of_int (sp_w e div 2);
          ey = sp_y e + real_of_int (sp_h e div 2)
      in trigger_shake 3 (spawn_particles rnd ex ey (color e) 6 s3))"

text \<open>The loop \<^verbatim>\<open>for b in list(self.bullets)\<close> for one enemy, over the snapshot.\<close>

fun enemy_bullets :: "(nat \<Rightarrow> real) \<Rightarrow> sprite \<Rightarrow> sprite list \<Rightarrow> game \<Rightarrow> game" where
  "enemy_bullets rnd e [] s = s"
| "enemy_bullets rnd e (b # bs) s =
     enemy_bullets rnd e bs (if intersects e b then hit rnd e b s else s)"

text \<open>Bobbing and motion of an enemy.\<close>

definition move_enemy :: "real \<Rightarrow> sprite \<Rightarrow> sprite" where
  "move_enemy d e0 =
     (let e1 = (if bob_amp e0 \<noteq> 0 \<and> bob_speed e0 \<noteq> 0 then
                  (let e = e0\<lparr> bob_phase := bob_phase e0 + bob_speed e0 * d \<rparr>
                   in e\<lparr> sp_y := base_y e + sin (bob_phase e) * bob_amp e \<rparr>)
                else e0)
      in update d e1)"

text \<open>The body of the loop over \<^verbatim>\<open>list(self.enemies)\<close>.\<close>

definition step_enemy :: "(nat \<Rightarrow> real) \<Rightarrow> real \<Rightarrow> sprite \<Rightarrow> game \<Rightarrow> game" where
  "step_enemy rnd d e0 s0 =
     (let e = move_enemy d e0;
          s1 = s0\<lparr> enemies := store_obj e (enemies s0) \<rparr>
      in if sp_x e + real_of_int (sp_w e) < 0 then
           s1\<lparr> enemies := list_remove e (enemies s1) \<rparr>
         else
           (let s2 = (if intersects e (get_player s1)
                      then trigger_shake 8 (s1\<lparr> running := False, combo := 0 \<rparr>)
                      else s1)
            in enemy_bullets rnd e (bullets s2) s2))"

definition collisions :: "(nat \<Rightarrow> real) \<Rightarrow> real \<Rightarrow> game \<Rightarrow> game" where
  "collisions rnd d s = foldl (\<lambda>s' e. step_enemy rnd d e s') s (enemies s)"

definition update_combo_timer :: "real \<Rightarrow> game \<Rightarrow> game" where
  "update_combo_timer d s0 =
     (let s = s0\<lparr> combo_timer := combo_timer s0 - d \<rparr>
      in if combo_timer s \<le> 0 then s\<lparr> combo := 0 \<rparr> else s)"

text \<open>
  The loop over \<^verbatim>\<open>list(self.particles)\<close>: every particle is updated, and removed when its
  update says it has died. The survivors keep their order.
\<close>

fun particles_loop :: "real \<Rightarrow> particle list \<Rightarrow> particle list" where
  "particles_loop d [] = []"
| "particles_loop d (p # ps) =
     (let (p', still_alive) = Particle_update d p
      in if still_alive then p' # particles_loop d ps else particles_loop d ps)"

definition update_particles :: "real \<Rightarrow> game \<Rightarrow> game" where
  "update_particles d s = s\<lparr> particles := particles_loop d (particles s) \<rparr>"

definition update_camera_shake :: "real \<Rightarrow> game \<Rightarrow> game" where
  "update_camera_shake d s = s\<lparr> camera_shake := max 0 (camera_shake s - d * 15) \<rparr>"

text \<open>
  The loop over the raindrops: a drop that falls below the window is recycled to the
  top with two draws. The result is the new list and the new count of draws.
\<close>

fun raindrops_loop :: "(nat \<Rightarrow> real) \<Rightarrow> real \<Rightarrow> raindrop list \<Rightarrow> nat \<Rightarrow> raindrop list \<times> nat" where
  "raindrops_loop rnd d [] k = ([], k)"
| "raindrops_loop rnd d (rd # rds) k =
     (let rd1 = rd\<lparr> rd_y := rd_y rd + rd_v rd * d \<rparr> in
      if rd_y rd1 > real_of_int WINDOW_H then
        (let rd2 = rd1\<lparr> rd_y := uniform (rnd k) (- real_of_int WINDOW_H * (1 / 2)) (- 5) \<rparr>;
             rd3 = rd2\<lparr> rd_x := uniform (rnd (k + 1)) 0 (real_of_int WINDOW_W) \<rparr>;
             (rest, k') = raindrops_loop rnd d rds (k + 2)
         in (rd3 # rest, k'))
      else
        (let (rest, k') = raindrops_loop rnd d rds k in (rd1 # rest, k')))"

definition update_raindrops :: "(nat \<Rightarrow> real) \<Rightarrow> real \<Rightarrow> game \<Rightarrow> game" where
  "update_raindrops rnd d s =
     (if theme s = Rainy then
        (let (rds, k) = raindrops_loop rnd d (raindrops s) (draws s)
         in s\<lparr> raindrops := rds, draws := k \<rparr>)
      else s)"

text \<open>
  \<^verbatim>\<open>GamePanel.on_timer\<close>. The steps of a running frame are applied in the order of the
  source, first to last.
\<close>

definition run_frame :: "(nat \<Rightarrow> real) \<Rightarrow> real \<Rightarrow> game \<Rightarrow> game" where
  "run_frame rnd d s =
     update_raindrops rnd d
       (update_camera_shake d
         (update_particles d
           (update_combo_timer d
             (collisions rnd d
               (theme_transition rnd
                 (update_difficulty
                   (spawn_phase rnd d
                     (update_bullets d
                       (physics d s)))))))))"

definition on_timer :: "(nat \<Rightarrow> real) \<Rightarrow> real \<Rightarrow> game \<Rightarrow> game" where
  "on_timer rnd now s0 =
     (let d0 = now - last_time s0;
          s1 = s0\<lparr> last_time := now \<rparr>;
          d = (if d0 > 5 / 100 then 5 / 100 else d0);
          s2 = s1\<lparr> dt := d \<rparr>
      in if \<not> running s2 \<or> paused s2 then s2 else run_frame rnd d s2)"

subsection \<open>Events\<close>




subsection \<open>Sample sessions\<close>

text \<open>
  Concrete states reached from a new game, for the examples that accompany the
  properties: four shots of the bird, one second apart; one
  special attack of the bird.
\<close>

definition four_shots :: game where
  "four_shots = try_shoot 4 (try_shoot 3 (try_shoot 2 (try_shoot 1 (new_game 0 0))))"

definition after_special :: game where
  "after_special = try_special_attack 1 (new_game 0 0)"

text \<open>The bird's four shots, then the pause key; and a new game paused at once.\<close>

definition paused_session :: game where
  "paused_session = on_key_down 5 (py_ord CHR ''P'') four_shots"

definition paused_game :: game where
  "paused_game = on_key_down 1 (py_ord CHR ''P'') (new_game 0 0)"

subsection \<open>Projections and counters used in the statements\<close>






subsection \<open>Kill sequences\<close>

text \<open>
  What happens to the tally between two kills of a session in which the player is not
  hit: a bullet hit is credited (\<open>credit_hit\<close>, as the collision loop does for every
  hit), or a frame ends (\<open>update_combo_timer\<close>, as every running frame does after the
  collisions). A sequence stays within the combo window when no frame end finds a
  running combo with its timer at or below zero.
\<close>

datatype combo_event = Hit | FrameEnd real

fun combo_step :: "combo_event \<Rightarrow> game \<Rightarrow> game" where
  "combo_step Hit s = credit_hit s"
| "combo_step (FrameEnd d) s = update_combo_timer d s"

definition combo_run :: "combo_event list \<Rightarrow> game \<Rightarrow> game" where
  "combo_run evs s = foldl (\<lambda>s' ev. combo_step ev s') s evs"




definition double_hit_session :: game where
  "double_hit_session =
     (new_game 0 0)\<lparr>
        enemies := [Sprite 2 200 300 48 30 (- 150) 0 (10, 150, 20)],
        bullets := [(Sprite 3 205 305 8 8 420 0 (255, 50, 50))\<lparr> bullet_type := Some Normal \<rparr>,
                    (Sprite 4 215 315 8 8 420 0 (255, 50, 50))\<lparr> bullet_type := Some Normal \<rparr>],
        next_oid := 5 \<rparr>"

text \<open>The same session at score 400: its two hits take the score over 500.\<close>

definition threshold_session :: game where
  "threshold_session = double_hit_session\<lparr> score := 400 \<rparr>"

section \<open>Properties\<close>

subsection \<open>Rounding to doubles and the points of a hit\<close>

text \<open>
  A number whose multiple by \<open>2 ^ k\<close> lies between \<open>2 ^ 52\<close> and \<open>2 ^ 53\<close> is rounded
  to a multiple of \<open>1 / 2 ^ k\<close>.
\<close>

lemma to_double_eval:
  assumes "2 ^ 52 \<le> x * 2 ^ k" "x * 2 ^ k < 2 ^ 53"
  shows "to_double x = real_of_int (round_even (x * 2 ^ k)) / 2 ^ k"
proof -
  have pos: "0 < x"
  proof (rule ccontr)
    assume "\<not> 0 < x"
    then have "x * 2 ^ k \<le> 0" by (simp add: mult_le_0_iff)
    with assms(1) have "(2 :: real) ^ 52 \<le> 0" by linarith
    then show False by simp
  qed
  have p: "2 powr (52 - real k) = 2 ^ 52 / 2 ^ k" "2 powr (52 - real k + 1) = 2 ^ 53 / 2 ^ k"
    by (simp_all add: powr_diff powr_add powr_realpow)
  have "2 ^ 52 / 2 ^ k \<le> x" "x < 2 ^ 53 / 2 ^ k"
    using assms by (simp_all add: field_simps)
  then have "\<lfloor>log 2 x\<rfloor> = 52 - int k"
    using pos p by (simp add: floor_log_eq_powr_iff)
  with pos show ?thesis by (simp add: to_double_def Let_def)
qed

text \<open>
  Rounding is monotone and odd, and keeps a positive number within its binade.
\<close>

lemma round_even_bounds: "\<lfloor>x\<rfloor> \<le> round_even x" "round_even x \<le> \<lfloor>x\<rfloor> + 1"
  by (simp_all add: round_even_def Let_def)

lemma round_even_of_int: "round_even (real_of_int n) = n"
  by (simp add: round_even_def Let_def)

lemma round_even_mono:
  assumes "x \<le> y" shows "round_even x \<le> round_even y"
proof (cases "\<lfloor>x\<rfloor> = \<lfloor>y\<rfloor>")
  case True
  with assms show ?thesis by (auto simp add: round_even_def Let_def)
next
  case False
  with assms have "\<lfloor>x\<rfloor> < \<lfloor>y\<rfloor>" using floor_mono [of x y] by linarith
  with round_even_bounds(2) [of x] round_even_bounds(1) [of y] show ?thesis by linarith
qed

lemma round_even_minus: "round_even (- x) = - round_even x"
proof (cases "x = real_of_int \<lfloor>x\<rfloor>")
  case True
  then obtain n where "x = real_of_int n" ..
  then show ?thesis using round_even_of_int [of n] round_even_of_int [of "- n"] by simp
next
  case False
  then have c: "\<lceil>x\<rceil> = \<lfloor>x\<rfloor> + 1" by (metis ceiling_altdef of_int_floor)
  have f: "\<lfloor>- x\<rfloor> = - \<lfloor>x\<rfloor> - 1" using c by (simp add: ceiling_def)
  show ?thesis
    unfolding round_even_def Let_def f by auto
qed

lemma sc_pos: "0 < sc x" by (simp add: sc_def)

lemma to_double_sc: "x \<noteq> 0 \<Longrightarrow> to_double x = real_of_int (round_even (x * sc x)) / sc x"
proof -
  assume x: "x \<noteq> 0"
  let ?k = "52 - \<lfloor>log 2 \<bar>x\<bar>\<rfloor>"
  have pk: "2 powr real_of_int ?k = (if 0 \<le> ?k then 2 ^ nat ?k else 1 / 2 ^ nat (- ?k))"
    by (rule powr_int) simp
  show ?thesis
    unfolding to_double_def Let_def sc_def pk using x by simp
qed

lemma log_floor_bounds:
  assumes "0 < x"
  shows "2 powr real_of_int \<lfloor>log 2 x\<rfloor> \<le> x" "x < 2 * 2 powr real_of_int \<lfloor>log 2 x\<rfloor>"
proof -
  have "2 powr real_of_int \<lfloor>log 2 x\<rfloor> \<le> x \<and> x < 2 powr (real_of_int \<lfloor>log 2 x\<rfloor> + 1)"
    using floor_log_eq_powr_iff [of x 2 "\<lfloor>log 2 x\<rfloor>"] assms by simp
  then show "2 powr real_of_int \<lfloor>log 2 x\<rfloor> \<le> x" "x < 2 * 2 powr real_of_int \<lfloor>log 2 x\<rfloor>"
    by (simp_all add: powr_add)
qed

text \<open>The scaled value of a positive number lies between \<open>2 ^ 52\<close> and \<open>2 ^ 53\<close>.\<close>

lemma scaled_bounds:
  assumes "0 < x"
  shows "2 ^ 52 \<le> x * sc x" "x * sc x < 2 ^ 53"
proof -
  let ?e = "\<lfloor>log 2 x\<rfloor>"
  have s: "sc x = 2 powr 52 / 2 powr real_of_int ?e"
    using assms by (simp add: sc_def powr_diff)
  have p: "(2::real) powr 52 = 2 ^ 52"
    using powr_realpow [of 2 52] by simp
  from log_floor_bounds [OF assms]
  have b: "2 powr real_of_int ?e \<le> x" "x < 2 * 2 powr real_of_int ?e" by simp_all
  have pos: "0 < 2 powr real_of_int ?e" by simp
  show "2 ^ 52 \<le> x * sc x"
    unfolding s p using b(1) pos by (simp add: field_simps)
  show "x * sc x < 2 ^ 53"
    unfolding s p using b(2) pos by (simp add: field_simps)
qed

lemma to_double_bounds:
  assumes "0 < x"
  shows "2 ^ 52 / sc x \<le> to_double x" "to_double x \<le> 2 ^ 53 / sc x"
proof -
  have "round_even (real_of_int (2 ^ 52)) \<le> round_even (x * sc x)"
    by (rule round_even_mono) (use scaled_bounds(1) [OF assms] in simp)
  then have 1: "2 ^ 52 \<le> round_even (x * sc x)" unfolding round_even_of_int .
  have "round_even (x * sc x) \<le> round_even (real_of_int (2 ^ 53))"
    by (rule round_even_mono) (use scaled_bounds(2) [OF assms] in simp)
  then have 2: "round_even (x * sc x) \<le> 2 ^ 53" unfolding round_even_of_int .
  have x: "x \<noteq> 0" using assms by simp
  from 1 have "(2::real) ^ 52 \<le> real_of_int (round_even (x * sc x))"
    by (metis of_int_le_iff of_int_numeral of_int_power)
  then show "2 ^ 52 / sc x \<le> to_double x"
    unfolding to_double_sc [OF x] using sc_pos [of x] by (simp add: divide_le_cancel)
  from 2 have "real_of_int (round_even (x * sc x)) \<le> (2::real) ^ 53"
    by (metis of_int_le_iff of_int_numeral of_int_power)
  then show "to_double x \<le> 2 ^ 53 / sc x"
    unfolding to_double_sc [OF x] using sc_pos [of x] by (simp add: divide_le_cancel)
qed

lemma to_double_pos:
  assumes "0 < x" shows "0 < to_double x"
proof -
  have "(0::real) < 2 ^ 52 / sc x" using sc_pos [of x] by simp
  with to_double_bounds(1) [OF assms] show ?thesis by linarith
qed

lemma to_double_minus: "to_double (- x) = - to_double x"
proof (cases "x = 0")
  case True then show ?thesis by (simp add: to_double_def)
next
  case False
  have s: "sc (- x) = sc x" by (simp add: sc_def)
  from False have "- x \<noteq> 0" by simp
  from to_double_sc [OF this] to_double_sc [OF False] show ?thesis
    unfolding s by (simp add: round_even_minus)
qed

lemma sc_antimono:
  assumes "0 < x" "x \<le> y"
  shows "sc y \<le> sc x"
proof -
  have "log 2 x \<le> log 2 y" using assms by simp
  then have "\<lfloor>log 2 x\<rfloor> \<le> \<lfloor>log 2 y\<rfloor>" by (rule floor_mono)
  then show ?thesis using assms by (simp add: sc_def)
qed

lemma sc_step:
  assumes "sc y < sc x"
  shows "2 * sc y \<le> sc x"
proof -
  let ?a = "52 - \<lfloor>log 2 \<bar>x\<bar>\<rfloor>" and ?b = "52 - \<lfloor>log 2 \<bar>y\<bar>\<rfloor>"
  from assms have "real_of_int ?b < real_of_int ?a" unfolding sc_def by simp
  then have "?b < ?a" unfolding of_int_less_iff .
  then have "?b + 1 \<le> ?a" by simp
  then have "real_of_int ?b + 1 \<le> real_of_int ?a"
    by (metis of_int_1 of_int_add of_int_le_iff)
  then have "2 powr (real_of_int ?b + 1) \<le> 2 powr real_of_int ?a"
    by (rule powr_mono) simp
  then show ?thesis unfolding sc_def powr_add by simp
qed

lemma to_double_mono_pos:
  assumes "0 < x" "x \<le> y"
  shows "to_double x \<le> to_double y"
proof (cases "sc y = sc x")
  case True
  have y: "0 < y" using assms by simp
  have "round_even (x * sc x) \<le> round_even (y * sc x)"
    by (rule round_even_mono) (use assms sc_pos [of x] in simp)
  then have "real_of_int (round_even (x * sc x)) / sc x \<le> real_of_int (round_even (y * sc x)) / sc x"
    using sc_pos [of x] by (simp add: divide_le_cancel)
  then show ?thesis
    using to_double_sc [of x] to_double_sc [of y] assms y True by simp
next
  case False
  have y: "0 < y" using assms by simp
  from False sc_antimono [OF assms] have "sc y < sc x" by simp
  then have "2 * sc y \<le> sc x" by (rule sc_step)
  then have "2 ^ 53 / sc x \<le> 2 ^ 52 / sc y"
    using sc_pos [of x] sc_pos [of y] by (simp add: field_simps)
  with to_double_bounds(2) [OF assms(1)] to_double_bounds(1) [OF y]
  show ?thesis by linarith
qed

lemma to_double_zero: "to_double 0 = 0" by (simp add: to_double_def)

lemma to_double_mono:
  assumes "x \<le> y"
  shows "to_double x \<le> to_double y"
proof -
  consider "0 < x" | "x \<le> 0" "0 \<le> y" | "y < 0" using assms by linarith
  then show ?thesis
  proof cases
    case 1 then show ?thesis using assms by (rule to_double_mono_pos)
  next
    case 2
    have "to_double x \<le> 0"
    proof (cases "x = 0")
      case True then show ?thesis by (simp add: to_double_zero)
    next
      case False
      with 2 have "0 < - x" by simp
      from to_double_pos [OF this] show ?thesis by (simp add: to_double_minus)
    qed
    moreover have "0 \<le> to_double y"
    proof (cases "y = 0")
      case True then show ?thesis by (simp add: to_double_zero)
    next
      case False
      with 2 have "0 < y" by simp
      from to_double_pos [OF this] show ?thesis by simp
    qed
    ultimately show ?thesis by linarith
  next
    case 3
    then have "0 < - y" "- y \<le> - x" using assms by simp_all
    from to_double_mono_pos [OF this] show ?thesis by (simp add: to_double_minus)
  qed
qed























subsection \<open>What the weapons append\<close>


lemma shoot_bird_bullets:
  "\<exists>b. bullets (shoot_bird s) = bullets s @ [b] \<and> bullet_type b = Some Normal"
  by (simp add: shoot_bird_def add_bullet_def Let_def)

lemma shoot_snake_bullets:
  "\<exists>p1 p2 p3. bullets (shoot_snake s) = bullets s @ [p1, p2, p3]
     \<and> bullet_type p1 = Some Venom \<and> bullet_type p2 = Some Venom \<and> bullet_type p3 = Some Venom"
  by (simp add: shoot_snake_def snake_pellet_def add_bullet_def Let_def)

lemma special_bird_bullets:
  "\<exists>ps. bullets (special_bird_attack s) = bullets s @ ps \<and> length ps = 5
     \<and> (\<forall>p \<in> set ps. bullet_type p = Some Special)"
  by (simp add: special_bird_attack_def special_bird_bullet_def add_bullet_def Let_def)

lemma upt8: "[0 ..< 8] = [0, 1, 2, 3, 4, 5, 6, 7 :: nat]"
  by (simp add: upt_rec)

lemma special_snake_bullets:
  "\<exists>ps. bullets (special_snake_attack s) = bullets s @ ps \<and> length ps = 8
     \<and> (\<forall>p \<in> set ps. bullet_type p = Some SpecialVenom)"
  by (simp add: special_snake_attack_def special_snake_pellet_def add_bullet_def Let_def upt8)


lemma shoot_frame:
  "running (shoot s) = running s" "paused (shoot s) = paused s"
  "current_character (shoot s) = current_character s"
  by (simp_all add: shoot_def shoot_bird_def shoot_snake_def snake_pellet_def add_bullet_def Let_def)

lemma special_attack_frame:
  "running (special_attack s) = running s" "paused (special_attack s) = paused s"
  by (simp_all add: special_attack_def trigger_shake_def special_bird_attack_def
      special_bird_bullet_def special_snake_attack_def special_snake_pellet_def add_bullet_def
      Let_def upt8)

lemma shoot_length:
  "length (bullets (shoot s)) = length (bullets s) + (if current_character s = Bird then 1 else 3)"
  using shoot_bird_bullets [of s] shoot_snake_bullets [of s]
  by (auto simp: shoot_def)

lemma shoot_primary:
  "length (filter is_primary (bullets (shoot s)))
     = length (filter is_primary (bullets s)) + (if current_character s = Bird then 1 else 3)"
  using shoot_bird_bullets [of s] shoot_snake_bullets [of s]
  by (auto simp: shoot_def is_primary_def)

lemma shoot_prefix: "take (length (bullets s)) (bullets (shoot s)) = bullets s"
  using shoot_bird_bullets [of s] shoot_snake_bullets [of s]
  by (auto simp: shoot_def)

lemma special_attack_length:
  "length (bullets (special_attack s)) = length (bullets s) + (if current_character s = Bird then 5 else 8)"
  using special_bird_bullets [of s] special_snake_bullets [of s]
  by (auto simp: special_attack_def trigger_shake_def)

lemma special_attack_prefix: "take (length (bullets s)) (bullets (special_attack s)) = bullets s"
  using special_bird_bullets [of s] special_snake_bullets [of s]
  by (auto simp: special_attack_def trigger_shake_def)

lemma special_attack_primary:
  "filter is_primary (bullets (special_attack s)) = filter is_primary (bullets s)"
  using special_bird_bullets [of s] special_snake_bullets [of s]
  by (auto simp: special_attack_def trigger_shake_def is_primary_def)

lemma new_game_fields:
  "bullets (new_game t hs) = []" "last_shot (new_game t hs) = - 10"
  "last_special (new_game t hs) = - 10" "special_cooldown (new_game t hs) = 3"
  "current_character (new_game t hs) = Bird" "running (new_game t hs)" "\<not> paused (new_game t hs)"
  by (simp_all add: new_game_def)

lemma try_shoot_fired:
  assumes "\<not> now - last_shot s < SHOOT_COOLDOWN" "length (bullets s) < MAX_BULLETS"
  shows "last_shot (try_shoot now s) = now"
    and "current_character (try_shoot now s) = current_character s"
    and "length (bullets (try_shoot now s))
           = length (bullets s) + (if current_character s = Bird then 1 else 3)"
    and "length (filter is_primary (bullets (try_shoot now s)))
           = length (filter is_primary (bullets s)) + (if current_character s = Bird then 1 else 3)"
    and "take (length (bullets s)) (bullets (try_shoot now s)) = bullets s"
    and "running (try_shoot now s) = running s" and "paused (try_shoot now s) = paused s"
  using assms by (simp_all add: try_shoot_def shoot_frame shoot_length shoot_primary shoot_prefix)

lemma try_shoot_blocked:
  "now - last_shot s < SHOOT_COOLDOWN \<or> MAX_BULLETS \<le> length (bullets s) \<Longrightarrow> try_shoot now s = s"
  by (auto simp: try_shoot_def)

lemma try_shoot_primary_bound:
  "length (filter is_primary (bullets (try_shoot now s)))
     \<le> max (if current_character s = Bird then 4 else 6) (length (filter is_primary (bullets s)))"
proof (cases "now - last_shot s < SHOOT_COOLDOWN \<or> MAX_BULLETS \<le> length (bullets s)")
  case True
  then show ?thesis by (simp add: try_shoot_blocked)
next
  case False
  then have c: "\<not> now - last_shot s < SHOOT_COOLDOWN" and l: "length (bullets s) < MAX_BULLETS"
    by auto
  have le: "length (filter is_primary (bullets s)) \<le> length (bullets s)"
    by (rule length_filter_le)
  from l le have "length (filter is_primary (bullets s)) < 4"
    unfolding MAX_BULLETS_def by linarith
  then show ?thesis
    unfolding try_shoot_fired(4) [OF c l] by (simp split: if_splits)
qed

lemma toggle_fields:
  "bullets (toggle_character s) = bullets s" "last_shot (toggle_character s) = last_shot s"
  "current_character (toggle_character s) = (if current_character s = Bird then Snake else Bird)"
  by (simp_all add: toggle_character_def set_player_def Let_def split: character.splits)

lemma four_shots_facts:
  "length (bullets four_shots) = 4" "current_character four_shots = Bird"
  "length (filter is_primary (bullets four_shots)) = 4"
  by (simp_all add: four_shots_def try_shoot_fired new_game_fields
      SHOOT_COOLDOWN_def MAX_BULLETS_def)

lemma try_special_fired:
  assumes "\<not> now - last_special s < special_cooldown s"
  shows "length (bullets (try_special_attack now s))
           = length (bullets s) + (if current_character s = Bird then 5 else 8)"
    and "filter is_primary (bullets (try_special_attack now s)) = filter is_primary (bullets s)"
    and "take (length (bullets s)) (bullets (try_special_attack now s)) = bullets s"
    and "running (try_special_attack now s) = running s"
    and "paused (try_special_attack now s) = paused s"
    and "last_shot (try_special_attack now s) = last_shot s"
    and "camera_shake (try_special_attack now s) = 6"
  using assms
  by (simp_all add: try_special_attack_def special_attack_length special_attack_primary
      special_attack_prefix special_attack_frame)
     (simp_all add: special_attack_def trigger_shake_def special_bird_attack_def
      special_bird_bullet_def special_snake_attack_def special_snake_pellet_def add_bullet_def
      Let_def upt8)

lemma try_shoot_noop_iff:
  "try_shoot now s = s \<longleftrightarrow> now - last_shot s < SHOOT_COOLDOWN \<or> MAX_BULLETS \<le> length (bullets s)"
proof
  assume eq: "try_shoot now s = s"
  show "now - last_shot s < SHOOT_COOLDOWN \<or> MAX_BULLETS \<le> length (bullets s)"
  proof (rule ccontr)
    assume "\<not> ?thesis"
    then have "length (bullets (try_shoot now s)) = length (bullets s) + (if current_character s = Bird then 1 else 3)"
      by (intro try_shoot_fired) auto
    with eq show False by (simp split: if_splits)
  qed
qed (rule try_shoot_blocked)

lemma after_special_facts:
  "length (bullets after_special) = 5" "filter is_primary (bullets after_special) = []"
  "last_shot after_special = - 10" "current_character after_special = Bird"
  by (simp_all add: after_special_def try_special_fired new_game_fields)
     (simp add: try_special_attack_def special_attack_def trigger_shake_def special_bird_attack_def
      special_bird_bullet_def add_bullet_def Let_def new_game_def)

subsection \<open>What each step of a frame leaves unchanged\<close>




















subsection \<open>Fields after a hit and after the end of a frame\<close>







subsection \<open>The loop over the bullets for one enemy\<close>










subsection \<open>Bounding boxes\<close>

text \<open>
  A sum that is at least a double is, once rounded, still at least that double; so a
  rounded edge sum below a coordinate means that the exact sum is below it.
\<close>

lemma rounded_sum_ge:
  assumes "is_double c" "c \<le> x"
  shows "c \<le> to_double x"
  using to_double_mono [OF assms(2)] assms(1) by (simp add: is_double_def)

lemma rounded_sum_less:
  assumes "is_double c" "to_double x < c"
  shows "x < c"
  using rounded_sum_ge [OF assms(1), of x] assms(2) by linarith

lemma intersects_touching_x:
  assumes "float_coords a" "float_coords b" "0 \<le> sp_w a" "0 \<le> sp_w b"
    and "sp_x a + real_of_int (sp_w a) = sp_x b
         \<or> to_double (sp_x a + real_of_int (sp_w a)) = sp_x b"
    and "sp_y b \<le> sp_y a + real_of_int (sp_h a)" "sp_y a \<le> sp_y b + real_of_int (sp_h b)"
  shows "intersects a b" "intersects b a"
proof -
  from assms(1,2) have d: "is_double (sp_x a)" "is_double (sp_y a)"
    "is_double (sp_x b)" "is_double (sp_y b)"
    by (simp_all add: float_coords_def)
  have e: "to_double (sp_x a + real_of_int (sp_w a)) = sp_x b"
    using assms(5) d(3) by (auto simp: is_double_def)
  have "sp_x a \<le> sp_x a + real_of_int (sp_w a)" using assms(3) by simp
  from rounded_sum_ge [OF d(1) this] e have ab: "sp_x a \<le> sp_x b" by simp
  then have "sp_x a \<le> sp_x b + real_of_int (sp_w b)" using assms(4) by linarith
  from rounded_sum_ge [OF d(1) this]
  have 1: "sp_x a \<le> to_double (sp_x b + real_of_int (sp_w b))" .
  from rounded_sum_ge [OF d(4) assms(6)]
  have 2: "sp_y b \<le> to_double (sp_y a + real_of_int (sp_h a))" .
  from rounded_sum_ge [OF d(2) assms(7)]
  have 3: "sp_y a \<le> to_double (sp_y b + real_of_int (sp_h b))" .
  from e 1 2 3 show "intersects a b" "intersects b a"
    unfolding intersects_def by simp_all
qed

lemma intersects_touching_y:
  assumes "float_coords a" "float_coords b" "0 \<le> sp_h a" "0 \<le> sp_h b"
    and "sp_y a + real_of_int (sp_h a) = sp_y b
         \<or> to_double (sp_y a + real_of_int (sp_h a)) = sp_y b"
    and "sp_x b \<le> sp_x a + real_of_int (sp_w a)" "sp_x a \<le> sp_x b + real_of_int (sp_w b)"
  shows "intersects a b" "intersects b a"
proof -
  from assms(1,2) have d: "is_double (sp_x a)" "is_double (sp_y a)"
    "is_double (sp_x b)" "is_double (sp_y b)"
    by (simp_all add: float_coords_def)
  have e: "to_double (sp_y a + real_of_int (sp_h a)) = sp_y b"
    using assms(5) d(4) by (auto simp: is_double_def)
  have "sp_y a \<le> sp_y a + real_of_int (sp_h a)" using assms(3) by simp
  from rounded_sum_ge [OF d(2) this] e have ab: "sp_y a \<le> sp_y b" by simp
  then have "sp_y a \<le> sp_y b + real_of_int (sp_h b)" using assms(4) by linarith
  from rounded_sum_ge [OF d(2) this]
  have 1: "sp_y a \<le> to_double (sp_y b + real_of_int (sp_h b))" .
  from rounded_sum_ge [OF d(3) assms(6)]
  have 2: "sp_x b \<le> to_double (sp_x a + real_of_int (sp_w a))" .
  from rounded_sum_ge [OF d(1) assms(7)]
  have 3: "sp_x a \<le> to_double (sp_x b + real_of_int (sp_w b))" .
  from e 1 2 3 show "intersects a b" "intersects b a"
    unfolding intersects_def by simp_all
qed

lemma not_intersects_separated:
  assumes "float_coords a" "float_coords b" "\<not> intersects a b"
  shows "(sp_x a + real_of_int (sp_w a) < sp_x b \<or> sp_x b + real_of_int (sp_w b) < sp_x a)
       \<or> (sp_y a + real_of_int (sp_h a) < sp_y b \<or> sp_y b + real_of_int (sp_h b) < sp_y a)"
proof -
  from assms(1,2) have d: "is_double (sp_x a)" "is_double (sp_y a)"
    "is_double (sp_x b)" "is_double (sp_y b)"
    by (simp_all add: float_coords_def)
  from assms(3) consider
      "to_double (sp_x a + real_of_int (sp_w a)) < sp_x b"
    | "to_double (sp_x b + real_of_int (sp_w b)) < sp_x a"
    | "to_double (sp_y a + real_of_int (sp_h a)) < sp_y b"
    | "to_double (sp_y b + real_of_int (sp_h b)) < sp_y a"
    unfolding intersects_def by blast
  then show ?thesis
  proof cases
    case 1 from rounded_sum_less [OF d(3) this] show ?thesis by blast
  next
    case 2 from rounded_sum_less [OF d(1) this] show ?thesis by blast
  next
    case 3 from rounded_sum_less [OF d(4) this] show ?thesis by blast
  next
    case 4 from rounded_sum_less [OF d(2) this] show ?thesis by blast
  qed
qed

text \<open>
  C7. The overlap test is boundary-inclusive. Take two sprites of non-negative size
  whose coordinates are floats. If the right edge of one is the left edge of the other
  (the sum \<open>x + w\<close> of the one, exact or as the float addition gives it, equals the \<open>x\<close>
  of the other) and their vertical extents meet, \<open>intersects\<close> is true in both
  directions of the call; likewise when the bottom edge of one is the top edge of the
  other and their horizontal extents meet. And \<open>intersects\<close> is false only when the
  boxes are strictly separated on the horizontal or on the vertical axis: the exact
  right edge of one lies left of the other, or the exact bottom edge of one lies above
  the other.
\<close>

theorem intersects_boundary_inclusive:
  assumes "float_coords a" "float_coords b"
    and "0 \<le> sp_w a" "0 \<le> sp_h a" "0 \<le> sp_w b" "0 \<le> sp_h b"
  shows "((sp_x a + real_of_int (sp_w a) = sp_x b
             \<or> to_double (sp_x a + real_of_int (sp_w a)) = sp_x b)
            \<and> sp_y b \<le> sp_y a + real_of_int (sp_h a) \<and> sp_y a \<le> sp_y b + real_of_int (sp_h b)
            \<longrightarrow> intersects a b \<and> intersects b a)
       \<and> ((sp_y a + real_of_int (sp_h a) = sp_y b
             \<or> to_double (sp_y a + real_of_int (sp_h a)) = sp_y b)
            \<and> sp_x b \<le> sp_x a + real_of_int (sp_w a) \<and> sp_x a \<le> sp_x b + real_of_int (sp_w b)
            \<longrightarrow> intersects a b \<and> intersects b a)
       \<and> (\<not> intersects a b \<longrightarrow>
              (sp_x a + real_of_int (sp_w a) < sp_x b \<or> sp_x b + real_of_int (sp_w b) < sp_x a)
            \<or> (sp_y a + real_of_int (sp_h a) < sp_y b \<or> sp_y b + real_of_int (sp_h b) < sp_y a))"
  using intersects_touching_x [OF assms(1,2) assms(3) assms(5)]
    intersects_touching_y [OF assms(1,2) assms(4) assms(6)]
    not_intersects_separated [OF assms(1,2)]
  by blast

text \<open>
  An enemy of 48 by 30 at (94, 300) and the bird (34 by 24) at (60, 320): the left
  edge of the enemy is the right edge of the bird, and they intersect. An enemy at
  (95, 300) does not intersect the bird, and is strictly to its right.
\<close>

theorem intersects_boundary_inclusive_witness:
  "float_coords (Sprite 0 60 320 34 24 0 0 (255, 200, 0))
   \<and> float_coords (Sprite 2 94 300 48 30 (-150) 0 (10, 150, 20))
   \<and> sp_x (Sprite 0 60 320 34 24 0 0 (255, 200, 0)) + real_of_int (sp_w (Sprite 0 60 320 34 24 0 0 (255, 200, 0)))
     = sp_x (Sprite 2 94 300 48 30 (-150) 0 (10, 150, 20))
   \<and> intersects (Sprite 0 60 320 34 24 0 0 (255, 200, 0)) (Sprite 2 94 300 48 30 (-150) 0 (10, 150, 20))
   \<and> intersects (Sprite 2 94 300 48 30 (-150) 0 (10, 150, 20)) (Sprite 0 60 320 34 24 0 0 (255, 200, 0))
   \<and> float_coords (Sprite 2 95 300 48 30 (-150) 0 (10, 150, 20))
   \<and> \<not> intersects (Sprite 0 60 320 34 24 0 0 (255, 200, 0)) (Sprite 2 95 300 48 30 (-150) 0 (10, 150, 20))
   \<and> sp_x (Sprite 0 60 320 34 24 0 0 (255, 200, 0)) + real_of_int (sp_w (Sprite 0 60 320 34 24 0 0 (255, 200, 0)))
     < sp_x (Sprite 2 95 300 48 30 (-150) 0 (10, 150, 20))"
proof -
  let ?a = "Sprite 0 60 320 34 24 0 0 (255, 200, 0)"
  let ?b = "Sprite 2 94 300 48 30 (-150) 0 (10, 150, 20)"
  let ?c = "Sprite 2 95 300 48 30 (-150) 0 (10, 150, 20)"
  have v: "to_double 60 = 60" "to_double 320 = 320" "to_double 94 = 94" "to_double 300 = 300"
    "to_double 95 = 95"
    using to_double_eval [of 60 47] to_double_eval [of 320 44] to_double_eval [of 94 46]
      to_double_eval [of 300 44] to_double_eval [of 95 46]
    by (simp_all add: round_even_def Let_def)
  have fa: "float_coords ?a" and fb: "float_coords ?b" and fc: "float_coords ?c"
    by (simp_all add: float_coords_def is_double_def Sprite_def v)
  have sizes: "0 \<le> sp_w ?a" "0 \<le> sp_h ?a" "0 \<le> sp_w ?b" "0 \<le> sp_h ?b"
    "0 \<le> sp_w ?c" "0 \<le> sp_h ?c"
    by (simp_all add: Sprite_def)
  have edge: "sp_x ?a + real_of_int (sp_w ?a) = sp_x ?b"
    and rows: "sp_y ?b \<le> sp_y ?a + real_of_int (sp_h ?a)" "sp_y ?a \<le> sp_y ?b + real_of_int (sp_h ?b)"
    by (simp_all add: Sprite_def)
  from intersects_boundary_inclusive [OF fa fb sizes(1,2,3,4)] edge rows
  have i: "intersects ?a ?b" "intersects ?b ?a" by blast+
  have n: "\<not> intersects ?a ?c"
    by (simp add: intersects_def Sprite_def v)
  have apart: "sp_x ?a + real_of_int (sp_w ?a) < sp_x ?c"
    by (simp add: Sprite_def)
  from intersects_boundary_inclusive [OF fa fc sizes(1,2,5,6)] n
  have "(sp_x ?a + real_of_int (sp_w ?a) < sp_x ?c \<or> sp_x ?c + real_of_int (sp_w ?c) < sp_x ?a)
      \<or> (sp_y ?a + real_of_int (sp_h ?a) < sp_y ?c \<or> sp_y ?c + real_of_int (sp_h ?c) < sp_y ?a)"
    by blast
  from fa fb edge i fc n apart show ?thesis by blast
qed

text \<open>
  The test is not exact in the other direction. The bird-sized box at the float
  \<^verbatim>\<open>0.1\<close> with width 1 and a box at the float \<^verbatim>\<open>1.1\<close> are apart by less than the spacing of
  the doubles there: the float sum \<^verbatim>\<open>0.1 + 1\<close> is \<^verbatim>\<open>1.1\<close>, and \<open>intersects\<close> is true.
\<close>

lemma intersects_within_rounding:
  "sp_x (Sprite 0 (to_double (1 / 10)) 0 1 1 0 0 (0, 0, 0)) + 1
     < sp_x (Sprite 1 (to_double (11 / 10)) 0 1 1 0 0 (0, 0, 0))
   \<and> intersects (Sprite 0 (to_double (1 / 10)) 0 1 1 0 0 (0, 0, 0))
        (Sprite 1 (to_double (11 / 10)) 0 1 1 0 0 (0, 0, 0))"
proof -
  have a: "to_double (1 / 10) = 3602879701896397 / 36028797018963968"
    using to_double_eval [of "1 / 10" 56] by (simp add: round_even_def Let_def)
  have b: "to_double (11 / 10) = 2476979795053773 / 2251799813685248"
    using to_double_eval [of "11 / 10" 52] by (simp add: round_even_def Let_def)
  have c: "to_double (39631676720860365 / 36028797018963968) = 2476979795053773 / 2251799813685248"
    using to_double_eval [of "39631676720860365 / 36028797018963968" 52]
    by (simp add: round_even_def Let_def)
  have d: "to_double (4728779608739021 / 2251799813685248) = 4728779608739021 / 2251799813685248"
    using to_double_eval [of "4728779608739021 / 2251799813685248" 51]
    by (simp add: round_even_def Let_def)
  have e: "to_double 1 = 1"
    using to_double_eval [of 1 52] by (simp add: round_even_def Let_def)
  show ?thesis
    by (simp add: intersects_def Sprite_def a b c d e to_double_zero)
qed

subsection \<open>Loading the high score\<close>




















subsection \<open>The cap on primary fire\<close>

text \<open>
  C2, as the code has it. A primary-fire attempt made while 4 or more projectiles are
  in flight (in particular while 4 primary projectiles are), or before the cooldown of
  0.28 s since the last shot has passed, is a silent no-op: the state is unchanged, for
  either character. Otherwise the shot is fired: the time of the shot is recorded and
  the bird's shot appends one primary projectile, the snake's cone three, behind the
  projectiles already in flight. So the bird's fire never takes the number of primary
  projectiles above 4, and the snake's cone, fired whole with up to 3 projectiles in
  flight, never takes it above 6.
\<close>

theorem try_shoot_cap:
  "(now - last_shot s < SHOOT_COOLDOWN \<or> MAX_BULLETS \<le> length (bullets s)
      \<longrightarrow> try_shoot now s = s)
   \<and> (4 \<le> length (filter is_primary (bullets s)) \<longrightarrow> try_shoot now s = s)
   \<and> (\<not> now - last_shot s < SHOOT_COOLDOWN \<and> length (bullets s) < MAX_BULLETS
      \<longrightarrow> last_shot (try_shoot now s) = now
        \<and> take (length (bullets s)) (bullets (try_shoot now s)) = bullets s
        \<and> length (bullets (try_shoot now s))
            = length (bullets s) + (if current_character s = Bird then 1 else 3)
        \<and> length (filter is_primary (bullets (try_shoot now s)))
            = length (filter is_primary (bullets s)) + (if current_character s = Bird then 1 else 3))
   \<and> (current_character s = Bird \<longrightarrow>
        length (filter is_primary (bullets (try_shoot now s)))
          \<le> max 4 (length (filter is_primary (bullets s))))
   \<and> length (filter is_primary (bullets (try_shoot now s)))
          \<le> max 6 (length (filter is_primary (bullets s)))"
proof -
  have le: "length (filter is_primary (bullets s)) \<le> length (bullets s)"
    by (rule length_filter_le)
  have 1: "now - last_shot s < SHOOT_COOLDOWN \<or> MAX_BULLETS \<le> length (bullets s)
      \<longrightarrow> try_shoot now s = s"
    using try_shoot_blocked [of now s] by blast
  have 2: "4 \<le> length (filter is_primary (bullets s)) \<longrightarrow> try_shoot now s = s"
  proof
    assume "4 \<le> length (filter is_primary (bullets s))"
    with le have "MAX_BULLETS \<le> length (bullets s)"
      unfolding MAX_BULLETS_def by linarith
    with 1 show "try_shoot now s = s" by blast
  qed
  have 3: "\<not> now - last_shot s < SHOOT_COOLDOWN \<and> length (bullets s) < MAX_BULLETS
      \<longrightarrow> last_shot (try_shoot now s) = now
        \<and> take (length (bullets s)) (bullets (try_shoot now s)) = bullets s
        \<and> length (bullets (try_shoot now s))
            = length (bullets s) + (if current_character s = Bird then 1 else 3)
        \<and> length (filter is_primary (bullets (try_shoot now s)))
            = length (filter is_primary (bullets s)) + (if current_character s = Bird then 1 else 3)"
  proof
    assume "\<not> now - last_shot s < SHOOT_COOLDOWN \<and> length (bullets s) < MAX_BULLETS"
    then have c: "\<not> now - last_shot s < SHOOT_COOLDOWN" and l: "length (bullets s) < MAX_BULLETS"
      by simp_all
    from try_shoot_fired(1) [OF c l] try_shoot_fired(5) [OF c l] try_shoot_fired(3) [OF c l]
      try_shoot_fired(4) [OF c l]
    show "last_shot (try_shoot now s) = now
        \<and> take (length (bullets s)) (bullets (try_shoot now s)) = bullets s
        \<and> length (bullets (try_shoot now s))
            = length (bullets s) + (if current_character s = Bird then 1 else 3)
        \<and> length (filter is_primary (bullets (try_shoot now s)))
            = length (filter is_primary (bullets s)) + (if current_character s = Bird then 1 else 3)"
      by blast
  qed
  have 4: "current_character s = Bird \<longrightarrow>
        length (filter is_primary (bullets (try_shoot now s)))
          \<le> max 4 (length (filter is_primary (bullets s)))"
    using try_shoot_primary_bound [of now s] by (cases "current_character s = Bird") auto
  have 5: "length (filter is_primary (bullets (try_shoot now s)))
          \<le> max 6 (length (filter is_primary (bullets s)))"
    using try_shoot_primary_bound [of now s] by (cases "current_character s = Bird") auto
  from 1 2 3 4 5 show ?thesis by blast
qed

text \<open>
  After four shots of the bird the fifth attempt changes nothing; the first shot of a
  new game, one second in, is fired and is the one projectile in flight.
\<close>

theorem try_shoot_cap_witness:
  "length (bullets four_shots) = 4 \<and> length (filter is_primary (bullets four_shots)) = 4
   \<and> current_character four_shots = Bird \<and> try_shoot 5 four_shots = four_shots
   \<and> \<not> 1 - last_shot (new_game 0 0) < SHOOT_COOLDOWN
   \<and> length (bullets (new_game 0 0)) < MAX_BULLETS
   \<and> current_character (new_game 0 0) = Bird
   \<and> last_shot (try_shoot 1 (new_game 0 0)) = 1
   \<and> length (bullets (try_shoot 1 (new_game 0 0))) = 1
   \<and> length (filter is_primary (bullets (try_shoot 1 (new_game 0 0)))) = 1"
  using try_shoot_cap [of 5 four_shots] try_shoot_cap [of 1 "new_game 0 0"] four_shots_facts
  by (simp add: MAX_BULLETS_def SHOOT_COOLDOWN_def new_game_fields)

text \<open>
  The claim that at most 4 primary projectiles are ever in flight fails for the snake:
  the second cone is fired with 3 pellets in flight and leaves 6.
\<close>

theorem snake_cone_exceeds_cap:
  "length (filter is_primary (bullets (try_shoot 1 (toggle_character (new_game 0 0))))) = 3
   \<and> length (filter is_primary (bullets (try_shoot 2 (try_shoot 1 (toggle_character (new_game 0 0)))))) = 6"
  by (simp add: try_shoot_fired new_game_fields toggle_fields SHOOT_COOLDOWN_def MAX_BULLETS_def)

subsection \<open>What the cap counts\<close>

text \<open>
  C3, as the code has it. A special attack is held back by its own cooldown only: once
  the cooldown has passed it appends its 5 (bird) or 8 (snake) projectiles, however
  many projectiles are in flight. Primary fire is a no-op exactly when its cooldown has
  not passed or the shared bullet collection holds 4 or more projectiles. The
  collection is counted whole, so the projectiles of a special attack that are still in
  flight do count towards the cap: 4 or more of them alone block primary fire.
\<close>

theorem cap_counts_all_projectiles:
  "(\<not> now - last_special s < special_cooldown s \<longrightarrow>
      length (bullets (try_special_attack now s))
        = length (bullets s) + (if current_character s = Bird then 5 else 8))
   \<and> (try_shoot now s = s \<longleftrightarrow>
        now - last_shot s < SHOOT_COOLDOWN \<or> MAX_BULLETS \<le> length (bullets s))
   \<and> (MAX_BULLETS \<le> length (filter (\<lambda>b. \<not> is_primary b) (bullets s)) \<longrightarrow> try_shoot now s = s)"
proof -
  have le: "length (filter (\<lambda>b. \<not> is_primary b) (bullets s)) \<le> length (bullets s)"
    by (rule length_filter_le)
  have 3: "MAX_BULLETS \<le> length (filter (\<lambda>b. \<not> is_primary b) (bullets s)) \<longrightarrow> try_shoot now s = s"
  proof
    assume "MAX_BULLETS \<le> length (filter (\<lambda>b. \<not> is_primary b) (bullets s))"
    with le have "MAX_BULLETS \<le> length (bullets s)" by linarith
    then show "try_shoot now s = s" by (simp add: try_shoot_blocked)
  qed
  show ?thesis
    using try_special_fired(1) [of now s] try_shoot_noop_iff [of now s] 3 by blast
qed

text \<open>
  A special attack on top of the four bullets of the bird gives nine projectiles; and
  after a special attack alone, the next shot is blocked.
\<close>

theorem cap_counts_all_projectiles_witness:
  "length (bullets (try_special_attack 1 four_shots)) = 9
   \<and> length (filter (\<lambda>b. \<not> is_primary b) (bullets after_special)) = 5
   \<and> try_shoot 2 after_special = after_special"
proof -
  have a: "\<not> (1::real) - last_special four_shots < special_cooldown four_shots"
    by (simp add: four_shots_def try_shoot_def shoot_def shoot_bird_def add_bullet_def Let_def
        new_game_def SHOOT_COOLDOWN_def MAX_BULLETS_def)
  have b: "length (filter (\<lambda>b. \<not> is_primary b) (bullets after_special)) = 5"
    using after_special_facts(1,2) sum_length_filter_compl [of is_primary "bullets after_special"]
    by simp
  from cap_counts_all_projectiles [of 1 four_shots] a four_shots_facts
  have 1: "length (bullets (try_special_attack 1 four_shots)) = 9" by simp
  from cap_counts_all_projectiles [of 2 after_special] b
  have 2: "try_shoot 2 after_special = after_special" by (simp add: MAX_BULLETS_def)
  from 1 b 2 show ?thesis by simp
qed

text \<open>
  The claim that the projectiles of a special attack do not count fails: after the
  bird's special attack no primary projectile is in flight and the cooldown of the
  primary fire has passed, yet the shot adds nothing.
\<close>

theorem special_projectiles_block_primary_fire:
  "filter is_primary (bullets after_special) = []
   \<and> \<not> 2 - last_shot after_special < SHOOT_COOLDOWN
   \<and> bullets (try_shoot 2 after_special) = bullets after_special"
  by (simp add: after_special_facts SHOOT_COOLDOWN_def try_shoot_blocked MAX_BULLETS_def)

subsection \<open>Frames of a paused or finished session\<close>

lemma paused_session_eq: "paused_session = four_shots\<lparr> keys := {80}, paused := True \<rparr>"
  by (simp add: paused_session_def on_key_down_def py_ord_def WXK_SPACE_def Let_def
      four_shots_def try_shoot_fired new_game_fields SHOOT_COOLDOWN_def MAX_BULLETS_def)
     (simp add: try_shoot_def shoot_def shoot_bird_def add_bullet_def new_game_def Let_def SHOOT_COOLDOWN_def MAX_BULLETS_def)

text \<open>
  C5. A frame processed while the session is paused or over (not running) only
  records the clock: the state is the old one with \<open>last_time\<close> and \<open>dt\<close> updated.
  The two player sprites, the bullets, the enemies, the particles, the raindrops and
  the score are unchanged (no physics), the spawn timer is unchanged and no random
  number is drawn (no spawning), and no collision is resolved.
\<close>

theorem on_timer_idle:
  assumes "\<not> running s \<or> paused s"
  shows "on_timer rnd now s
           = s\<lparr> last_time := now,
                dt := (if now - last_time s > 5 / 100 then 5 / 100 else now - last_time s) \<rparr>
       \<and> bird (on_timer rnd now s) = bird s \<and> snake (on_timer rnd now s) = snake s
       \<and> bullets (on_timer rnd now s) = bullets s \<and> enemies (on_timer rnd now s) = enemies s
       \<and> particles (on_timer rnd now s) = particles s
       \<and> raindrops (on_timer rnd now s) = raindrops s
       \<and> score (on_timer rnd now s) = score s
       \<and> spawn_timer (on_timer rnd now s) = spawn_timer s
       \<and> draws (on_timer rnd now s) = draws s"
  using assms by (auto simp: on_timer_def Let_def)

text \<open>A frame of the paused session with the bird's four bullets in flight.\<close>

theorem on_timer_idle_witness:
  "paused paused_session
   \<and> length (bullets (on_timer (\<lambda>k. 0) 6 paused_session)) = 4
   \<and> bullets (on_timer (\<lambda>k. 0) 6 paused_session) = bullets paused_session
   \<and> bird (on_timer (\<lambda>k. 0) 6 paused_session) = bird paused_session
   \<and> score (on_timer (\<lambda>k. 0) 6 paused_session) = score paused_session"
proof -
  have p: "paused paused_session" by (simp add: paused_session_eq)
  have l: "length (bullets paused_session) = 4"
    by (simp add: paused_session_eq four_shots_facts)
  from on_timer_idle [of paused_session "\<lambda>k. 0" 6] p l show ?thesis by simp
qed

subsection \<open>Restart\<close>

text \<open>
  C10, as the code has it. A restart empties the bullet, enemy and particle
  collections, zeroes score, combo, combo timer, the velocities of both player sprites
  and the camera shake, and puts both player sprites back at the spawn point (60, 320).
  It leaves the theme, the theme stage, the two theme boosts, the raindrops, the spawn
  timer and the index of the difficulty preset as they were, so the restarted session
  starts at score 0 with the weather and the boosts of the session before.
\<close>

theorem reset_effect:
  "bullets (reset s) = [] \<and> enemies (reset s) = [] \<and> particles (reset s) = []
   \<and> score (reset s) = 0 \<and> combo (reset s) = 0 \<and> combo_timer (reset s) = 0
   \<and> sp_x (bird (reset s)) = 60 \<and> sp_y (bird (reset s)) = 320
   \<and> sp_vx (bird (reset s)) = 0 \<and> sp_vy (bird (reset s)) = 0
   \<and> sp_x (snake (reset s)) = 60 \<and> sp_y (snake (reset s)) = 320
   \<and> sp_vx (snake (reset s)) = 0 \<and> sp_vy (snake (reset s)) = 0
   \<and> camera_shake (reset s) = 0
   \<and> theme (reset s) = theme s \<and> theme_stage (reset s) = theme_stage s
   \<and> theme_spawn_boost (reset s) = theme_spawn_boost s
   \<and> theme_enemy_speed_boost (reset s) = theme_enemy_speed_boost s
   \<and> raindrops (reset s) = raindrops s \<and> spawn_timer (reset s) = spawn_timer s
   \<and> difficulty_index (reset s) = difficulty_index s"
  by (simp add: reset_def save_high_score_def Let_def WINDOW_H_def)

text \<open>
  The positions are not zeroed, as the claim has it: after a restart the bird is at
  (60, 320).
\<close>

theorem reset_position_not_zero:
  "sp_x (bird (reset (new_game 0 0))) = 60 \<and> sp_y (bird (reset (new_game 0 0))) = 320
   \<and> sp_x (bird (reset (new_game 0 0))) \<noteq> 0 \<and> sp_y (bird (reset (new_game 0 0))) \<noteq> 0"
  by (simp add: reset_def save_high_score_def Let_def WINDOW_H_def new_game_def)

subsection \<open>Key events in any session state\<close>

lemma on_key_down_space:
  "on_key_down now WXK_SPACE s
     = (let s1 = s\<lparr> keys := insert WXK_SPACE (keys s) \<rparr>
        in set_player ((get_player s1)\<lparr> sp_vy := flap_strength s1 \<rparr>) s1)"
  by (simp add: on_key_down_def Let_def)

lemma on_key_down_fire:
  "key = WXK_CONTROL \<or> key = py_ord CHR ''Z'' \<Longrightarrow>
     on_key_down now key s = try_shoot now (s\<lparr> keys := insert key (keys s) \<rparr>)"
  by (auto simp: on_key_down_def Let_def WXK_CONTROL_def WXK_SPACE_def py_ord_def)

lemma on_key_down_special:
  "key = py_ord CHR ''X'' \<or> key = py_ord CHR ''x'' \<Longrightarrow>
     on_key_down now key s = try_special_attack now (s\<lparr> keys := insert key (keys s) \<rparr>)"
  by (auto simp: on_key_down_def Let_def WXK_CONTROL_def WXK_SPACE_def py_ord_def)

text \<open>
  C9. The key handler does not look at the session state. In every state, so also in a
  paused session and after the game is over: the flap key sets the vertical velocity of
  the active player to the flap impulse; a primary-fire key, when the cooldown has
  passed and fewer than 4 projectiles are in flight, appends 1 (bird) or 3 (snake)
  projectiles to the bullet collection; a special-attack key, when its cooldown has
  passed, appends 5 (bird) or 8 (snake). The session stays paused or over as it was.
\<close>

theorem key_events_ignore_session_state:
  "sp_vy (get_player (on_key_down now WXK_SPACE s)) = flap_strength s
    \<and> ((key = WXK_CONTROL \<or> key = py_ord CHR ''Z'') \<and> \<not> now - last_shot s < SHOOT_COOLDOWN
          \<and> length (bullets s) < MAX_BULLETS \<longrightarrow>
         length (bullets (on_key_down now key s))
           = length (bullets s) + (if current_character s = Bird then 1 else 3)
         \<and> take (length (bullets s)) (bullets (on_key_down now key s)) = bullets s
         \<and> running (on_key_down now key s) = running s
         \<and> paused (on_key_down now key s) = paused s)
    \<and> ((key = py_ord CHR ''X'' \<or> key = py_ord CHR ''x'')
          \<and> \<not> now - last_special s < special_cooldown s \<longrightarrow>
         length (bullets (on_key_down now key s))
           = length (bullets s) + (if current_character s = Bird then 5 else 8)
         \<and> take (length (bullets s)) (bullets (on_key_down now key s)) = bullets s
         \<and> running (on_key_down now key s) = running s
         \<and> paused (on_key_down now key s) = paused s)"
proof -
  let ?s = "s\<lparr> keys := insert key (keys s) \<rparr>"
  have 1: "sp_vy (get_player (on_key_down now WXK_SPACE s)) = flap_strength s"
    by (simp add: on_key_down_space Let_def get_player_def set_player_def split: character.splits)
  have 2: "(key = WXK_CONTROL \<or> key = py_ord CHR ''Z'') \<and> \<not> now - last_shot s < SHOOT_COOLDOWN
          \<and> length (bullets s) < MAX_BULLETS \<longrightarrow>
         length (bullets (on_key_down now key s))
           = length (bullets s) + (if current_character s = Bird then 1 else 3)
         \<and> take (length (bullets s)) (bullets (on_key_down now key s)) = bullets s
         \<and> running (on_key_down now key s) = running s
         \<and> paused (on_key_down now key s) = paused s"
  proof (intro impI, elim conjE)
    assume k: "key = WXK_CONTROL \<or> key = py_ord CHR ''Z''"
      and c: "\<not> now - last_shot s < SHOOT_COOLDOWN" and l: "length (bullets s) < MAX_BULLETS"
    have c': "\<not> now - last_shot ?s < SHOOT_COOLDOWN" and l': "length (bullets ?s) < MAX_BULLETS"
      using c l by simp_all
    show "length (bullets (on_key_down now key s))
           = length (bullets s) + (if current_character s = Bird then 1 else 3)
         \<and> take (length (bullets s)) (bullets (on_key_down now key s)) = bullets s
         \<and> running (on_key_down now key s) = running s
         \<and> paused (on_key_down now key s) = paused s"
      unfolding on_key_down_fire [OF k]
      using try_shoot_fired(3,5,6,7) [OF c' l'] by simp
  qed
  have 3: "(key = py_ord CHR ''X'' \<or> key = py_ord CHR ''x'')
          \<and> \<not> now - last_special s < special_cooldown s \<longrightarrow>
         length (bullets (on_key_down now key s))
           = length (bullets s) + (if current_character s = Bird then 5 else 8)
         \<and> take (length (bullets s)) (bullets (on_key_down now key s)) = bullets s
         \<and> running (on_key_down now key s) = running s
         \<and> paused (on_key_down now key s) = paused s"
  proof (intro impI, elim conjE)
    assume k: "key = py_ord CHR ''X'' \<or> key = py_ord CHR ''x''"
      and c: "\<not> now - last_special s < special_cooldown s"
    have c': "\<not> now - last_special ?s < special_cooldown ?s"
      using c by simp
    show "length (bullets (on_key_down now key s))
           = length (bullets s) + (if current_character s = Bird then 5 else 8)
         \<and> take (length (bullets s)) (bullets (on_key_down now key s)) = bullets s
         \<and> running (on_key_down now key s) = running s
         \<and> paused (on_key_down now key s) = paused s"
      unfolding on_key_down_special [OF k]
      using try_special_fired(1,3,4,5) [OF c'] by simp
  qed
  from 1 2 3 show ?thesis by blast
qed


text \<open>In a paused new game: a flap, a shot and a special attack.\<close>

theorem key_events_ignore_session_state_witness:
  "paused paused_game
   \<and> sp_vy (get_player (on_key_down 2 WXK_SPACE paused_game)) = - 320
   \<and> length (bullets (on_key_down 2 (py_ord CHR ''Z'') paused_game)) = 1
   \<and> paused (on_key_down 2 (py_ord CHR ''Z'') paused_game)
   \<and> length (bullets (on_key_down 2 (py_ord CHR ''x'') paused_game)) = 5
   \<and> paused (on_key_down 2 (py_ord CHR ''x'') paused_game)"
proof -
  have eq: "paused_game = (new_game 0 0)\<lparr> keys := {80}, paused := True \<rparr>"
    by (simp add: paused_game_def on_key_down_def py_ord_def WXK_SPACE_def Let_def new_game_def)
  have f: "paused paused_game" "flap_strength paused_game = - 320"
    "\<not> 2 - last_shot paused_game < SHOOT_COOLDOWN" "length (bullets paused_game) < MAX_BULLETS"
    "\<not> 2 - last_special paused_game < special_cooldown paused_game"
    "length (bullets paused_game) = 0" "current_character paused_game = Bird"
    by (simp_all add: eq new_game_def SHOOT_COOLDOWN_def MAX_BULLETS_def)
  from key_events_ignore_session_state [of 2 paused_game "py_ord CHR ''Z''"]
    key_events_ignore_session_state [of 2 paused_game "py_ord CHR ''x''"] f
  show ?thesis by simp
qed

subsection \<open>The transition to the rainy theme\<close>





















subsection \<open>The combo award\<close>


lemma combo_run_snoc: "combo_run (evs @ [ev]) s = combo_step ev (combo_run evs s)"
  by (simp add: combo_run_def)










subsection \<open>One enemy, two bullets\<close>





end
